theory Spec2Isabelle
  imports Main "HOL-Library.Char_ord" "HOL-Library.List_Lexorder" "HOL-Library.Signed_Division"
begin

section \<open>The lexer (namespace parse)\<close>

subsection \<open>Tokens and lexer state\<close>

text \<open>
  The alternatives of \<^verbatim>\<open>parse::Token\<close>, in the order of the printing operator of the
  lexer. The suffix keeps them apart from the runtime values and the AST nodes of the
  same names.
\<close>

datatype Token =
    Number_token int
  | Id_token string
  | String_token string
  | Char_token char
  | Class_token
  | Return_token
  | If_token
  | Else_token
  | Def_token
  | Newline_token
  | Print_token
  | Indent_token
  | Dedent_token
  | And_token
  | Or_token
  | Not_token
  | Eq_token
  | NotEq_token
  | LessOrEq_token
  | GreaterOrEq_token
  | None_token
  | True_token
  | False_token
  | Eof_token

text \<open>
  The members of \<^verbatim>\<open>parse::Lexer\<close> (\<^verbatim>\<open>input_\<close> and \<^verbatim>\<open>tokens_\<close> without their final
  underscore). The stream \<open>input\<close> is the list of the characters not yet read; \<open>tokens\<close>
  is the vector of all tokens emitted so far, the last one being the current token.
\<close>

record Lexer =
  input :: string
  tokens :: "Token list"
  is_start_line :: bool
  indent :: int
  cur_indent :: int

definition NUM_OF_SPACES_IN_INDENT :: int where
  "NUM_OF_SPACES_IN_INDENT = 2"

subsection \<open>Characters and the input stream\<close>

text \<open>
  The lexer stores the result of \<^verbatim>\<open>get()\<close> and \<^verbatim>\<open>peek()\<close> in a \<^verbatim>\<open>char\<close> and compares it
  with \<^verbatim>\<open>EOF\<close> (the int -1). With a signed \<^verbatim>\<open>char\<close> (the targets on which the lexer
  reaches its end-of-stream branch at all) the comparison holds exactly for the byte
  0xFF, which is also what the end of the stream is narrowed to.
\<close>

definition EOF_char :: char where
  "EOF_char = CHR 0xFF"

definition newline_char :: char where
  "newline_char = CHR 0x0A"

definition space_char :: char where
  "space_char = CHR 0x20"

definition backslash_char :: char where
  "backslash_char = CHR 0x5C"

definition single_quote_char :: char where
  "single_quote_char = CHR 0x27"

definition double_quote_char :: char where
  "double_quote_char = CHR 0x22"

definition tab_char :: char where
  "tab_char = CHR 0x09"

text \<open>\<^verbatim>\<open>input_.peek()\<close> and \<^verbatim>\<open>input_.get()\<close>, narrowed to \<^verbatim>\<open>char\<close>; at the end of the
  stream both yield \<^verbatim>\<open>(char)EOF\<close> and the stream stays at its end.\<close>

definition peek :: "string \<Rightarrow> char" where
  "peek inp = (case inp of [] \<Rightarrow> EOF_char | c # _ \<Rightarrow> c)"

definition get :: "string \<Rightarrow> char \<times> string" where
  "get inp = (case inp of [] \<Rightarrow> (EOF_char, []) | c # cs \<Rightarrow> (c, cs))"

text \<open>The character classes of the C locale; bytes outside ASCII are in none of them.\<close>

definition isdigit :: "char \<Rightarrow> bool" where
  "isdigit c = (48 \<le> (of_char c :: nat) \<and> (of_char c :: nat) \<le> 57)"

definition isalpha :: "char \<Rightarrow> bool" where
  "isalpha c = ((65 \<le> (of_char c :: nat) \<and> (of_char c :: nat) \<le> 90) \<or>
                (97 \<le> (of_char c :: nat) \<and> (of_char c :: nat) \<le> 122))"

definition ispunct :: "char \<Rightarrow> bool" where
  "ispunct c = ((33 \<le> (of_char c :: nat) \<and> (of_char c :: nat) \<le> 47) \<or>
                (58 \<le> (of_char c :: nat) \<and> (of_char c :: nat) \<le> 64) \<or>
                (91 \<le> (of_char c :: nat) \<and> (of_char c :: nat) \<le> 96) \<or>
                (123 \<le> (of_char c :: nat) \<and> (of_char c :: nat) \<le> 126))"

text \<open>
  \<^verbatim>\<open>std::stoi\<close> on a non-empty string of decimal digits: the value, or no value when it
  does not fit an \<^verbatim>\<open>int\<close> (32 bits), where \<^verbatim>\<open>std::stoi\<close> throws \<^verbatim>\<open>std::out_of_range\<close>.
\<close>

definition digits_value :: "string \<Rightarrow> int" where
  "digits_value s = foldl (\<lambda>acc c. 10 * acc + (int (of_char c) - 48)) 0 s"

definition stoi :: "string \<Rightarrow> int option" where
  "stoi s = (if digits_value s \<le> 2147483647 then Some (digits_value s) else None)"

text \<open>
  Modelled from the spec: the keyword table (the member \<^verbatim>\<open>keywords_\<close>) is initialised in
  lexer.h, which is not among the sources; the spec lists the twelve keywords.
\<close>

definition keyword_table :: "string \<Rightarrow> Token option" where
  "keyword_table = map_of
     [(''class'', Class_token), (''return'', Return_token), (''if'', If_token),
      (''else'', Else_token), (''def'', Def_token), (''print'', Print_token),
      (''and'', And_token), (''or'', Or_token), (''not'', Not_token),
      (''None'', None_token), (''True'', True_token), (''False'', False_token)]"

subsection \<open>The lexer's procedures\<close>

text \<open>
  What a call of a lexer procedure does: it returns with a new lexer state, or it throws
  (\<^verbatim>\<open>std::stoi\<close> in \<^verbatim>\<open>ProcNumber\<close>), or it does not return (the loop of \<^verbatim>\<open>ProcShielding\<close>
  goes on, with a string that grows, as long as there is memory).
\<close>

datatype LexOutcome = Returned Lexer | Threw_out_of_range | NoReturn

definition emplace_back :: "Token \<Rightarrow> Lexer \<Rightarrow> Lexer" where
  "emplace_back t l = l\<lparr>tokens := tokens l @ [t]\<rparr>"

definition ProcEndStream :: "Lexer \<Rightarrow> Lexer" where
  "ProcEndStream l =
     (if is_start_line l \<and> cur_indent l > 0 then
        (if cur_indent l < indent l then
           emplace_back Indent_token (l\<lparr>cur_indent := cur_indent l + 1\<rparr>)
         else if cur_indent l > indent l then
           emplace_back Dedent_token (l\<lparr>cur_indent := cur_indent l - 1\<rparr>)
         else l)
      else
        (if \<not> is_start_line l then
           (emplace_back Newline_token l)\<lparr>is_start_line := True\<rparr>
         else emplace_back Eof_token l))"

text \<open>\<^verbatim>\<open>ProcIndent\<close> is entered with \<^verbatim>\<open>cur_char\<close> just read; \<^verbatim>\<open>unget()\<close> puts it back.\<close>

definition ProcIndent :: "char \<Rightarrow> Lexer \<Rightarrow> Lexer" where
  "ProcIndent cur_char l =
     (if cur_indent l < indent l then
        (emplace_back Indent_token (l\<lparr>cur_indent := cur_indent l + 1\<rparr>))
          \<lparr>input := cur_char # input l\<rparr>
      else if cur_indent l > indent l then
        (emplace_back Dedent_token (l\<lparr>cur_indent := cur_indent l - 1\<rparr>))
          \<lparr>input := cur_char # input l\<rparr>
      else l)"

text \<open>
  The loops of \<^verbatim>\<open>ProcNumber\<close>, \<^verbatim>\<open>ProcWord\<close> and \<^verbatim>\<open>ProcSpace\<close> read while the next character
  is of a class: \<open>takeWhile\<close> is what they read and \<open>dropWhile\<close> what they leave. At the end
  of the stream \<^verbatim>\<open>peek()\<close> answers \<^verbatim>\<open>EOF\<close>, which is in none of the classes.
\<close>

definition ProcNumber :: "char \<Rightarrow> Lexer \<Rightarrow> LexOutcome" where
  "ProcNumber cur_char l =
     (let number = cur_char # takeWhile isdigit (input l);
          l1 = l\<lparr>input := dropWhile isdigit (input l)\<rparr>
      in case stoi number of
           None \<Rightarrow> Threw_out_of_range
         | Some v \<Rightarrow> Returned ((emplace_back (Number_token v) l1)\<lparr>is_start_line := False\<rparr>))"

definition is_word_char :: "char \<Rightarrow> bool" where
  "is_word_char c = (c = CHR ''_'' \<or> isalpha c \<or> isdigit c)"

definition ProcWord :: "char \<Rightarrow> Lexer \<Rightarrow> Lexer" where
  "ProcWord cur_char l =
     (let word = cur_char # takeWhile is_word_char (input l);
          l1 = l\<lparr>input := dropWhile is_word_char (input l)\<rparr>
      in (case keyword_table word of
            Some t \<Rightarrow> emplace_back t l1
          | None \<Rightarrow> emplace_back (Id_token word) l1)\<lparr>is_start_line := False\<rparr>)"

text \<open>
  The loop of \<^verbatim>\<open>ProcShielding\<close>, from the stream \<^verbatim>\<open>inp\<close> and the string \<^verbatim>\<open>str\<close> built
  so far, to the string and the stream when the closing quote is the next character.
  At the end of the stream \<^verbatim>\<open>peek()\<close> keeps answering \<^verbatim>\<open>EOF\<close>, which is not the quote,
  so the loop appends it for ever: the value is then \<open>None\<close>.
\<close>

partial_function (option) ProcShielding_loop ::
    "char \<Rightarrow> string \<Rightarrow> string \<Rightarrow> (string \<times> string) option" where
  "ProcShielding_loop quotes inp str =
     (let next_char = peek inp in
      if next_char \<noteq> quotes then
        (if next_char = backslash_char then
           (let inp1 = snd (get inp);
                next_char1 = peek inp1;
                str1 = (if next_char1 = single_quote_char then str @ [single_quote_char]
                        else if next_char1 = double_quote_char then str @ [double_quote_char]
                        else if next_char1 = CHR ''n'' then str @ [newline_char]
                        else if next_char1 = CHR ''t'' then str @ [tab_char]
                        else str);
                inp2 = snd (get inp1)
            in ProcShielding_loop quotes inp2 str1)
         else ProcShielding_loop quotes (snd (get inp)) (str @ [next_char]))
      else Some (str, inp))"

declare ProcShielding_loop.simps [code]

definition ProcShielding :: "char \<Rightarrow> Lexer \<Rightarrow> LexOutcome" where
  "ProcShielding cur_char l =
     (case ProcShielding_loop cur_char (input l) [] of
        None \<Rightarrow> NoReturn
      | Some (str, inp) \<Rightarrow>
          Returned ((emplace_back (String_token str) (l\<lparr>input := snd (get inp)\<rparr>))
                      \<lparr>is_start_line := False\<rparr>))"

text \<open>\<^verbatim>\<open>std::getline\<close>: the stream after the line and its terminator have been extracted.\<close>

definition getline_rest :: "string \<Rightarrow> string" where
  "getline_rest inp = drop 1 (dropWhile (\<lambda>c. c \<noteq> newline_char) inp)"

lemma getline_rest_length: "length (getline_rest inp) \<le> length inp"
  unfolding getline_rest_def
  using length_dropWhile_le [of "\<lambda>c. c \<noteq> newline_char" inp] by simp

lemma getline_rest_shorter:
  "peek (getline_rest inp) \<noteq> EOF_char \<Longrightarrow> length (getline_rest inp) < length inp"
proof -
  assume a: "peek (getline_rest inp) \<noteq> EOF_char"
  have ne: "dropWhile (\<lambda>c. c \<noteq> newline_char) inp \<noteq> []"
  proof
    assume e: "dropWhile (\<lambda>c. c \<noteq> newline_char) inp = []"
    have "getline_rest inp = []" unfolding getline_rest_def e by simp
    with a show False by (simp add: peek_def)
  qed
  have "length (getline_rest inp) < length (dropWhile (\<lambda>c. c \<noteq> newline_char) inp)"
    using ne unfolding getline_rest_def by (cases "dropWhile (\<lambda>c. c \<noteq> newline_char) inp") auto
  also have "\<dots> \<le> length inp" by (rule length_dropWhile_le)
  finally show ?thesis .
qed

text \<open>
  \<^verbatim>\<open>FindNextToken\<close> with the three procedures that call it back. Each procedure is
  entered with the stream as \<^verbatim>\<open>FindNextToken\<close> left it after \<^verbatim>\<open>get()\<close>.
\<close>

function FindNextToken :: "Lexer \<Rightarrow> LexOutcome"
  and ProcSpace :: "Lexer \<Rightarrow> LexOutcome"
  and ProcEndOfLine :: "Lexer \<Rightarrow> LexOutcome"
  and ProcComment :: "Lexer \<Rightarrow> LexOutcome" where
  "FindNextToken l =
     (let cur_char = fst (get (input l));
          l1 = l\<lparr>input := snd (get (input l))\<rparr>
      in if cur_char = EOF_char then Returned (ProcEndStream l1)
         else if cur_char = space_char then ProcSpace l1
         else if cur_char = newline_char then ProcEndOfLine l1
         else if cur_indent l1 \<noteq> indent l1 \<and> is_start_line l1 then
           Returned (ProcIndent cur_char l1)
         else if isdigit cur_char then ProcNumber cur_char l1
         else if cur_char = CHR ''_'' \<or> isalpha cur_char \<or> isdigit cur_char then
           Returned (ProcWord cur_char l1)
         else if cur_char = single_quote_char \<or> cur_char = double_quote_char then
           ProcShielding cur_char l1
         else if cur_char = CHR ''#'' then ProcComment l1
         else if cur_char = CHR ''='' \<and> peek (input l1) = CHR ''='' then
           Returned (emplace_back Eq_token (l1\<lparr>input := snd (get (input l1))\<rparr>))
         else if cur_char = CHR ''!'' \<and> peek (input l1) = CHR ''='' then
           Returned (emplace_back NotEq_token (l1\<lparr>input := snd (get (input l1))\<rparr>))
         else if cur_char = CHR ''<'' \<and> peek (input l1) = CHR ''='' then
           Returned (emplace_back LessOrEq_token (l1\<lparr>input := snd (get (input l1))\<rparr>))
         else if cur_char = CHR ''>'' \<and> peek (input l1) = CHR ''='' then
           Returned (emplace_back GreaterOrEq_token (l1\<lparr>input := snd (get (input l1))\<rparr>))
         else if ispunct cur_char then
           Returned ((emplace_back (Char_token cur_char) l1)\<lparr>is_start_line := False\<rparr>)
         else Returned l1)"
| "ProcSpace l =
     (let space_count = 1 + int (length (takeWhile (\<lambda>c. c = space_char) (input l)));
          l1 = l\<lparr>input := dropWhile (\<lambda>c. c = space_char) (input l)\<rparr>;
          l2 = (if is_start_line l1
                then l1\<lparr>indent := space_count div NUM_OF_SPACES_IN_INDENT\<rparr> else l1)
      in FindNextToken l2)"
| "ProcEndOfLine l =
     (if is_start_line l then FindNextToken (l\<lparr>is_start_line := True\<rparr>)
      else Returned (emplace_back Newline_token (l\<lparr>indent := 0, is_start_line := True\<rparr>)))"
| "ProcComment l =
     (let l1 = l\<lparr>input := getline_rest (input l)\<rparr>;
          next_char = peek (input l1)
      in if next_char \<noteq> EOF_char then
           FindNextToken (l1\<lparr>input := newline_char # input l1\<rparr>)
         else Returned (emplace_back Eof_token l1))"
  by pat_completeness auto

termination
proof (relation "measure (\<lambda>x. case x of
          Inl (Inl l) \<Rightarrow> 2 * length (input l)
        | Inl (Inr l) \<Rightarrow> 2 * length (input l) + 1
        | Inr (Inl l) \<Rightarrow> 2 * length (input l) + 1
        | Inr (Inr l) \<Rightarrow> 2 * length (input l) + 1)", goal_cases)
  case 1
  show ?case by simp
next
  case (2 l x xa)
  then show ?case by (cases "input l") (auto simp: get_def EOF_char_def)
next
  case (3 l x xa)
  then show ?case by (cases "input l") (auto simp: get_def EOF_char_def)
next
  case (4 l x xa)
  then show ?case by (cases "input l") (auto simp: get_def EOF_char_def)
next
  case (5 l x xa xb)
  then show ?case
    using length_dropWhile_le [of "\<lambda>c. c = space_char" "input l"] by auto
next
  case (6 l)
  then show ?case by simp
next
  case (7 l x xa)
  then show ?case using getline_rest_shorter [of "input l"] by auto
qed

declare FindNextToken.simps [simp del] ProcSpace.simps [simp del]
  ProcEndOfLine.simps [simp del] ProcComment.simps [simp del]

subsection \<open>The public interface of the lexer\<close>

text \<open>
  Modelled from the spec: the initial values of \<^verbatim>\<open>is_start_line\<close>, \<^verbatim>\<open>indent\<close> and
  \<^verbatim>\<open>cur_indent\<close> are member initialisers of lexer.h, which is not among the sources.
  By the spec leading newlines emit nothing, so the lexer starts at a line start, and
  no indentation has been communicated yet.
\<close>

definition initial_state :: "string \<Rightarrow> Lexer" where
  "initial_state inp =
     \<lparr>input = inp, tokens = [], is_start_line = True, indent = 0, cur_indent = 0\<rparr>"

text \<open>The constructor \<^verbatim>\<open>Lexer::Lexer\<close> advances to the first token.\<close>

definition Lexer_ctor :: "string \<Rightarrow> LexOutcome" where
  "Lexer_ctor inp = FindNextToken (initial_state inp)"

text \<open>\<^verbatim>\<open>tokens_.back()\<close>; on an empty vector the C++ is undefined: no value.\<close>

definition CurrentToken :: "Lexer \<Rightarrow> Token option" where
  "CurrentToken l = (if tokens l = [] then None else Some (last (tokens l)))"

text \<open>\<^verbatim>\<open>NextToken\<close> advances; the token it returns is \<open>CurrentToken\<close> of the new state.\<close>

definition NextToken :: "Lexer \<Rightarrow> LexOutcome" where
  "NextToken l = FindNextToken l"

text \<open>The lexer constructed on an input, followed by \<open>n\<close> calls of \<^verbatim>\<open>NextToken\<close>.\<close>

fun NextToken_times :: "nat \<Rightarrow> LexOutcome \<Rightarrow> LexOutcome" where
  "NextToken_times 0 r = r"
| "NextToken_times (Suc n) r =
     (case r of Returned l \<Rightarrow> NextToken_times n (NextToken l) | _ \<Rightarrow> r)"

definition lex :: "string \<Rightarrow> nat \<Rightarrow> LexOutcome" where
  "lex inp n = NextToken_times n (Lexer_ctor inp)"

section \<open>The value runtime and the AST evaluator (namespaces runtime and ast)\<close>

subsection \<open>Values, classes and the AST\<close>

text \<open>
  \<^verbatim>\<open>Comparison::Comparator\<close> is a function object; the parser passes one of the six
  comparison functions of runtime.cpp, which the alternatives name.
\<close>

datatype Comparator =
  Cmp_Equal | Cmp_NotEqual | Cmp_Less | Cmp_Greater | Cmp_LessOrEqual | Cmp_GreaterOrEqual

text \<open>
  The node classes of statement.cpp with their members, the values an \<^verbatim>\<open>ObjectHolder\<close>
  can hold, and \<^verbatim>\<open>runtime::Class\<close> and \<^verbatim>\<open>runtime::Method\<close>.
  \<^item> \<open>VariableValue var_name dotted_ids\<close>; \<open>FieldAssignment\<close> holds its \<^verbatim>\<open>VariableValue\<close>
    member by value, as the first two arguments.
  \<^item> The else branch of \<open>IfElse\<close> may be a null pointer.
  \<^item> \<open>NewInstance\<close> holds a \<^verbatim>\<open>runtime::ClassInstance\<close> member, constructed with the node;
    every execution of the node shares that one object. The node is modelled with the
    address of this object in the store of instances (in the C++ two nodes never have
    the same address).
  \<^item> A \<^verbatim>\<open>Number\<close>, \<^verbatim>\<open>String\<close> or \<^verbatim>\<open>Bool\<close> object is never modified after its construction
    and neither is a \<^verbatim>\<open>Class\<close>, so a holder of one is modelled by the value; a class
    instance is mutable and shared, so a holder of one is its address (\<open>InstanceRef\<close>).
    \<open>Empty\<close> is the empty holder (the value None of the language).
  \<^item> \<^verbatim>\<open>Number\<close> holds an \<^verbatim>\<open>int\<close> of 32 bits: the lexer yields values in its range and
    the arithmetic of the evaluator wraps around (\<open>int_wrap\<close> below). Ownership
    (\<^verbatim>\<open>Own\<close> against \<^verbatim>\<open>Share\<close>) and the lifetime of the objects are not modelled either.
  \<^item> \<open>Not_stmt\<close> is the node class \<^verbatim>\<open>Not\<close>.
\<close>

datatype Statement =
    Assignment string Statement
  | VariableValue string "string list"
  | Print "Statement list"
  | MethodCall Statement string "Statement list"
  | Stringify Statement
  | Add Statement Statement
  | Sub Statement Statement
  | Mult Statement Statement
  | Div Statement Statement
  | Compound "Statement list"
  | Return Statement
  | ClassDefinition ObjectHolder
  | FieldAssignment string "string list" string Statement
  | IfElse Statement Statement "Statement option"
  | Or Statement Statement
  | And Statement Statement
  | Not_stmt Statement
  | Comparison Comparator Statement Statement
  | NewInstance nat "Statement list"
  | MethodBody Statement
and ObjectHolder =
    Empty
  | Number int
  | String string
  | Bool bool
  | ClassRef Class
  | InstanceRef nat
and Class =
    Class (GetName: string) (methods: "Method list") (parent: "Class option")
and Method =
    Method (name: string) (formal_params: "string list") (body: Statement)

text \<open>\<^verbatim>\<open>runtime::Closure\<close> is an unordered map from names to holders.\<close>

type_synonym Closure = "string \<rightharpoonup> ObjectHolder"

text \<open>
  A class instance (members \<^verbatim>\<open>cls_\<close> and \<^verbatim>\<open>fields_\<close>, the latter read through
  \<^verbatim>\<open>Fields()\<close>), and what an execution reads and writes besides its closure: the
  instances, by address, and the text written to the output stream of the context.
\<close>

record ClassInstance =
  cls :: Class
  Fields :: Closure

record Context =
  instances :: "nat \<Rightarrow> ClassInstance"
  output_stream :: string

text \<open>
  What leaves \<^verbatim>\<open>Execute\<close> other than by returning: a \<^verbatim>\<open>std::runtime_error\<close> with its
  message, the \<^verbatim>\<open>std::out_of_range\<close> of \<^verbatim>\<open>unordered_map::at\<close>, the \<^verbatim>\<open>ObjectHolder\<close> thrown by
  \<^verbatim>\<open>Return\<close>, the assertion of \<^verbatim>\<open>ObjectHolder::operator->\<close> on an empty holder, and an
  integer division that traps (by zero, or of the least \<^verbatim>\<open>int\<close> by -1). Nothing restores what was written before the throw, so
  every outcome carries the state it left.
  \<open>OutOfFuel\<close>: the execution needs method calls nested deeper than the bound given to
  \<open>Execute\<close>; an execution that is \<open>OutOfFuel\<close> for every bound does not terminate.
\<close>

datatype Exception =
    runtime_error string
  | out_of_range
  | thrown_holder ObjectHolder
  | assertion_failure
  | undefined_division

datatype ('v, 's) Outcome = Normal 'v 's | Throw Exception 's | OutOfFuel

text \<open>Sequencing: a throw or an exhausted bound ends the sequence.\<close>

definition andThen :: "('a, 's) Outcome \<Rightarrow> ('a \<Rightarrow> 's \<Rightarrow> ('b, 's) Outcome) \<Rightarrow> ('b, 's) Outcome" where
  "andThen r f = (case r of Normal v s \<Rightarrow> f v s | Throw e s \<Rightarrow> Throw e s | OutOfFuel \<Rightarrow> OutOfFuel)"

definition map_value :: "('a \<Rightarrow> 'b) \<Rightarrow> ('a, 's) Outcome \<Rightarrow> ('b, 's) Outcome" where
  "map_value f r = (case r of Normal v s \<Rightarrow> Normal (f v) s | Throw e s \<Rightarrow> Throw e s | OutOfFuel \<Rightarrow> OutOfFuel)"

definition map_state :: "('s \<Rightarrow> 't) \<Rightarrow> ('a, 's) Outcome \<Rightarrow> ('a, 't) Outcome" where
  "map_state g r = (case r of Normal v s \<Rightarrow> Normal v (g s) | Throw e s \<Rightarrow> Throw e (g s) | OutOfFuel \<Rightarrow> OutOfFuel)"

type_synonym Executor = "Statement \<Rightarrow> Closure \<Rightarrow> Context \<Rightarrow> (ObjectHolder, Closure \<times> Context) Outcome"

text \<open>\<^verbatim>\<open>ObjectHolder::TryAs<T>\<close>: the object when the holder holds a \<open>T\<close>.\<close>

definition TryAs_Number :: "ObjectHolder \<Rightarrow> int option" where
  "TryAs_Number h = (case h of Number v \<Rightarrow> Some v | _ \<Rightarrow> None)"

definition TryAs_String :: "ObjectHolder \<Rightarrow> string option" where
  "TryAs_String h = (case h of String v \<Rightarrow> Some v | _ \<Rightarrow> None)"

definition TryAs_Bool :: "ObjectHolder \<Rightarrow> bool option" where
  "TryAs_Bool h = (case h of Bool v \<Rightarrow> Some v | _ \<Rightarrow> None)"

definition TryAs_Class :: "ObjectHolder \<Rightarrow> Class option" where
  "TryAs_Class h = (case h of ClassRef c \<Rightarrow> Some c | _ \<Rightarrow> None)"

definition TryAs_ClassInstance :: "ObjectHolder \<Rightarrow> nat option" where
  "TryAs_ClassInstance h = (case h of InstanceRef a \<Rightarrow> Some a | _ \<Rightarrow> None)"

text \<open>Both casts succeed, as in an \<^verbatim>\<open>if\<close> on the second nested in one on the first.\<close>

definition both :: "'a option \<Rightarrow> 'b option \<Rightarrow> ('a \<times> 'b) option" where
  "both x y =
     (case x of
        None \<Rightarrow> None
      | Some a \<Rightarrow> (case y of None \<Rightarrow> None | Some b \<Rightarrow> Some (a, b)))"

definition IsTrue :: "ObjectHolder \<Rightarrow> bool" where
  "IsTrue object =
     (if object = Empty then False
      else case TryAs_Number object of Some v \<Rightarrow> v \<noteq> 0
      | None \<Rightarrow> (case TryAs_String object of Some s \<Rightarrow> s \<noteq> []
      | None \<Rightarrow> (case TryAs_Bool object of Some b \<Rightarrow> b
      | None \<Rightarrow> False)))"

text \<open>
  The constructor of \<^verbatim>\<open>Class\<close> stores its methods in a map by name, in the order of the
  vector: of two methods of one name the later one stays.
\<close>

definition methods_map :: "Method list \<Rightarrow> string \<rightharpoonup> Method" where
  "methods_map ms = map_of (rev (map (\<lambda>m. (name m, m)) ms))"

fun GetMethod :: "Class \<Rightarrow> string \<Rightarrow> Method option" where
  "GetMethod (Class nm ms par) n =
     (case methods_map ms n of
        Some m \<Rightarrow> Some m
      | None \<Rightarrow> (case par of Some p \<Rightarrow> GetMethod p n | None \<Rightarrow> None))"

definition HasMethod :: "ClassInstance \<Rightarrow> string \<Rightarrow> nat \<Rightarrow> bool" where
  "HasMethod inst method argument_count =
     (case GetMethod (cls inst) method of
        None \<Rightarrow> False
      | Some m \<Rightarrow> length (formal_params m) = argument_count)"


text \<open>The decimal digits of a natural number.\<close>

fun digits_of_nat :: "nat \<Rightarrow> string" where
  "digits_of_nat n =
     (if n < 10 then [char_of (48 + n)]
      else digits_of_nat (n div 10) @ [char_of (48 + n mod 10)])"

declare digits_of_nat.simps [simp del]

text \<open>
  Modelled from the spec: \<^verbatim>\<open>Number::Print\<close> is in runtime.h, which is not among the sources;
  by the spec a number is written in decimal.
\<close>

definition to_decimal :: "int \<Rightarrow> string" where
  "to_decimal i = (if i < 0 then CHR ''-'' # digits_of_nat (nat (- i)) else digits_of_nat (nat i))"

text \<open>
  Modelled from the spec: an instance without \<^verbatim>\<open>__str__\<close> is written as its address
  (\<^verbatim>\<open>os << this\<close>), a text that the implementation defines; by the spec it is not empty
  and is stable within a run.
\<close>

definition address_text :: "nat \<Rightarrow> string" where
  "address_text a = ''0x'' @ digits_of_nat a"

text \<open>
  \<^verbatim>\<open>ClassInstance::Call\<close> on the instance at address \<open>this\<close>. The executor \<open>exec\<close> runs the
  body of the method; the closure of the call is local to it and is dropped at its end.
\<close>

definition Call :: "Executor \<Rightarrow> nat \<Rightarrow> string \<Rightarrow> ObjectHolder list \<Rightarrow> Context
    \<Rightarrow> (ObjectHolder, Context) Outcome" where
  "Call exec this method actual_args context =
     (if \<not> HasMethod (instances context this) method (length actual_args) then
        Throw (runtime_error ''Method not found'') context
      else
        (case GetMethod (cls (instances context this)) method of
           None \<Rightarrow> Throw (runtime_error ''Method not found'') context
         | Some m \<Rightarrow>
             (let closure = foldl (\<lambda>c (p, a). c(p \<mapsto> a))
                              (Map.empty(''self'' \<mapsto> InstanceRef this))
                              (zip (formal_params m) actual_args)
              in map_state snd (exec (body m) closure context))))"

text \<open>
  The virtual \<^verbatim>\<open>Object::Print\<close>, as the text it writes to \<^verbatim>\<open>os\<close>: \<^verbatim>\<open>Bool::Print\<close>,
  \<^verbatim>\<open>Class::Print\<close> and \<^verbatim>\<open>ClassInstance::Print\<close> of runtime.cpp, and for a number and a
  string what the spec says (their \<^verbatim>\<open>Print\<close> is in runtime.h). \<^verbatim>\<open>ClassInstance::Print\<close>
  calls \<^verbatim>\<open>__str__\<close> and prints its result through \<^verbatim>\<open>operator->\<close>, which asserts that the
  holder is not empty; the result may be an instance again, and \<open>k\<close> bounds this nesting.
\<close>

fun Print_object :: "nat \<Rightarrow> Executor \<Rightarrow> ObjectHolder \<Rightarrow> Context \<Rightarrow> (string, Context) Outcome" where
  "Print_object k exec Empty context = Throw assertion_failure context"
| "Print_object k exec (Number v) context = Normal (to_decimal v) context"
| "Print_object k exec (String v) context = Normal v context"
| "Print_object k exec (Bool v) context = Normal (if v then ''True'' else ''False'') context"
| "Print_object k exec (ClassRef c) context = Normal (''Class '' @ GetName c) context"
| "Print_object k exec (InstanceRef this) context =
     (if HasMethod (instances context this) ''__str__'' 0 then
        (case k of
           0 \<Rightarrow> OutOfFuel
         | Suc k' \<Rightarrow> andThen (Call exec this ''__str__'' [] context) (Print_object k' exec))
      else Normal (address_text this) context)"

text \<open>The comparison functions of runtime.cpp.\<close>

definition Equal :: "Executor \<Rightarrow> ObjectHolder \<Rightarrow> ObjectHolder \<Rightarrow> Context \<Rightarrow> (bool, Context) Outcome" where
  "Equal exec lhs rhs context =
     (if lhs = Empty \<and> rhs = Empty then Normal True context
      else case both (TryAs_Number lhs) (TryAs_Number rhs) of
        Some (l, r) \<Rightarrow> Normal (l = r) context
      | None \<Rightarrow> (case both (TryAs_String lhs) (TryAs_String rhs) of
        Some (l, r) \<Rightarrow> Normal (l = r) context
      | None \<Rightarrow> (case both (TryAs_Bool lhs) (TryAs_Bool rhs) of
        Some (l, r) \<Rightarrow> Normal (l = r) context
      | None \<Rightarrow> (case TryAs_ClassInstance lhs of
        Some lhs_class \<Rightarrow>
          (if HasMethod (instances context lhs_class) ''__eq__'' 1 then
             map_value IsTrue (Call exec lhs_class ''__eq__'' [rhs] context)
           else Throw (runtime_error ''Error compare (==) objects'') context)
      | None \<Rightarrow> Throw (runtime_error ''Error compare (==) objects'') context))))"

definition Less :: "Executor \<Rightarrow> ObjectHolder \<Rightarrow> ObjectHolder \<Rightarrow> Context \<Rightarrow> (bool, Context) Outcome" where
  "Less exec lhs rhs context =
     (case both (TryAs_Number lhs) (TryAs_Number rhs) of
        Some (l, r) \<Rightarrow> Normal (l < r) context
      | None \<Rightarrow> (case both (TryAs_String lhs) (TryAs_String rhs) of
        Some (l, r) \<Rightarrow> Normal (l < r) context
      | None \<Rightarrow> (case both (TryAs_Bool lhs) (TryAs_Bool rhs) of
        Some (l, r) \<Rightarrow> Normal (l < r) context
      | None \<Rightarrow> (case TryAs_ClassInstance lhs of
        Some lhs_class \<Rightarrow>
          (if HasMethod (instances context lhs_class) ''__lt__'' 1 then
             map_value IsTrue (Call exec lhs_class ''__lt__'' [rhs] context)
           else Throw (runtime_error ''Error compare (<) objects'') context)
      | None \<Rightarrow> Throw (runtime_error ''Error compare (<) objects'') context))))"

definition NotEqual :: "Executor \<Rightarrow> ObjectHolder \<Rightarrow> ObjectHolder \<Rightarrow> Context \<Rightarrow> (bool, Context) Outcome" where
  "NotEqual exec lhs rhs context = map_value Not (Equal exec lhs rhs context)"

definition Greater :: "Executor \<Rightarrow> ObjectHolder \<Rightarrow> ObjectHolder \<Rightarrow> Context \<Rightarrow> (bool, Context) Outcome" where
  "Greater exec lhs rhs context =
     andThen (Less exec lhs rhs context) (\<lambda>less context1.
       if \<not> less then map_value Not (Equal exec lhs rhs context1)
       else Normal False context1)"

definition LessOrEqual :: "Executor \<Rightarrow> ObjectHolder \<Rightarrow> ObjectHolder \<Rightarrow> Context \<Rightarrow> (bool, Context) Outcome" where
  "LessOrEqual exec lhs rhs context = map_value Not (Greater exec lhs rhs context)"

definition GreaterOrEqual :: "Executor \<Rightarrow> ObjectHolder \<Rightarrow> ObjectHolder \<Rightarrow> Context \<Rightarrow> (bool, Context) Outcome" where
  "GreaterOrEqual exec lhs rhs context = map_value Not (Less exec lhs rhs context)"

definition apply_Comparator :: "Comparator \<Rightarrow> Executor \<Rightarrow> ObjectHolder \<Rightarrow> ObjectHolder \<Rightarrow> Context
    \<Rightarrow> (bool, Context) Outcome" where
  "apply_Comparator cmp =
     (case cmp of
        Cmp_Equal \<Rightarrow> Equal
      | Cmp_NotEqual \<Rightarrow> NotEqual
      | Cmp_Less \<Rightarrow> Less
      | Cmp_Greater \<Rightarrow> Greater
      | Cmp_LessOrEqual \<Rightarrow> LessOrEqual
      | Cmp_GreaterOrEqual \<Rightarrow> GreaterOrEqual)"

subsection \<open>The AST evaluator (statement.cpp)\<close>

text \<open>
  The loop of \<^verbatim>\<open>VariableValue::Execute\<close> over \<^verbatim>\<open>dotted_ids_\<close>; \<^verbatim>\<open>fields.at\<close> throws when the
  field is missing.
\<close>

fun follow_dotted_ids :: "Context \<Rightarrow> string list \<Rightarrow> ObjectHolder \<Rightarrow> Exception + ObjectHolder" where
  "follow_dotted_ids context [] object_holder = Inr object_holder"
| "follow_dotted_ids context (dotted_id # dotted_ids) object_holder =
     (case TryAs_ClassInstance object_holder of
        Some p \<Rightarrow>
          (case Fields (instances context p) dotted_id of
             None \<Rightarrow> Inl out_of_range
           | Some v \<Rightarrow> follow_dotted_ids context dotted_ids v)
      | None \<Rightarrow> follow_dotted_ids context dotted_ids object_holder)"

definition VariableValue_Execute :: "string \<Rightarrow> string list \<Rightarrow> Closure \<Rightarrow> Context
    \<Rightarrow> (ObjectHolder, Closure \<times> Context) Outcome" where
  "VariableValue_Execute var_name dotted_ids closure context =
     (case closure var_name of
        Some object_holder \<Rightarrow>
          (case follow_dotted_ids context dotted_ids object_holder of
             Inr v \<Rightarrow> Normal v (closure, context)
           | Inl e \<Rightarrow> Throw e (closure, context))
      | None \<Rightarrow>
          Throw (runtime_error (''Variable '' @ [double_quote_char] @ var_name @ [double_quote_char]
                               @ '' is not found'')) (closure, context))"

text \<open>The outcome of a runtime function, which has no access to the closure of its caller.\<close>

definition with_closure :: "Closure \<Rightarrow> ('a, Context) Outcome \<Rightarrow> ('a, Closure \<times> Context) Outcome" where
  "with_closure closure r = map_state (Pair closure) r"

text \<open>\<^verbatim>\<open>class_instance->Fields()[field_name_] = v\<close> on the instance at address \<open>p\<close>.\<close>

definition set_field :: "nat \<Rightarrow> string \<Rightarrow> ObjectHolder \<Rightarrow> Context \<Rightarrow> Context" where
  "set_field p field_name v context =
     context\<lparr>instances := (instances context)
       (p := (instances context p)\<lparr>Fields := (Fields (instances context p))(field_name \<mapsto> v)\<rparr>)\<rparr>"

text \<open>\<^verbatim>\<open>out << text\<close> on the output stream of the context.\<close>

definition write_out :: "string \<Rightarrow> Context \<Rightarrow> Context" where
  "write_out text context = context\<lparr>output_stream := output_stream context @ text\<rparr>"

text \<open>
  The arithmetic of \<^verbatim>\<open>int\<close> (32 bits, two's complement): a sum, difference or product
  that leaves the range wraps around, which is what the compiled code computes where
  C++ leaves the overflow undefined. The quotient truncates towards zero.
\<close>

definition INT_MIN :: int where
  "INT_MIN = - 2147483648"

definition int_wrap :: "int \<Rightarrow> int" where
  "int_wrap x = (x + 2147483648) mod 4294967296 - 2147483648"

text \<open>
  \<^verbatim>\<open>Execute\<close>, by the class of the node. The first argument bounds the nesting of method
  calls: \<open>Execute_body n\<close> is the executor given to the runtime for the bodies of the
  methods it calls. \<open>Execute_args\<close> is the loop that evaluates the arguments of a call,
  \<open>Execute_each\<close> the loop of \<^verbatim>\<open>Compound\<close>, \<open>Print_args\<close> the loop of \<^verbatim>\<open>Print\<close>.
  In an assignment the right-hand side is evaluated before the map is indexed (C++17).
\<close>

function Execute :: "nat \<Rightarrow> Statement \<Rightarrow> Closure \<Rightarrow> Context \<Rightarrow> (ObjectHolder, Closure \<times> Context) Outcome"
  and Execute_body :: "nat \<Rightarrow> Statement \<Rightarrow> Closure \<Rightarrow> Context \<Rightarrow> (ObjectHolder, Closure \<times> Context) Outcome"
  and Execute_args :: "nat \<Rightarrow> Statement list \<Rightarrow> Closure \<Rightarrow> Context \<Rightarrow> (ObjectHolder list, Closure \<times> Context) Outcome"
  and Execute_each :: "nat \<Rightarrow> Statement list \<Rightarrow> Closure \<Rightarrow> Context \<Rightarrow> (unit, Closure \<times> Context) Outcome"
  and Print_args :: "nat \<Rightarrow> Statement list \<Rightarrow> Closure \<Rightarrow> Context \<Rightarrow> (unit, Closure \<times> Context) Outcome"
where
  "Execute_body n stmt closure context =
     (case n of 0 \<Rightarrow> OutOfFuel | Suc m \<Rightarrow> Execute m stmt closure context)"
| "Execute_args n [] closure context = Normal [] (closure, context)"
| "Execute_args n (arg # args) closure context =
     andThen (Execute n arg closure context) (\<lambda>v (closure1, context1).
     andThen (Execute_args n args closure1 context1) (\<lambda>vs s. Normal (v # vs) s))"
| "Execute_each n [] closure context = Normal () (closure, context)"
| "Execute_each n (argument # args) closure context =
     andThen (Execute n argument closure context) (\<lambda>v (closure1, context1).
       Execute_each n args closure1 context1)"
| "Print_args n [] closure context = Normal () (closure, context)"
| "Print_args n (arg # args) closure context =
     andThen (Execute n arg closure context) (\<lambda>holder (closure1, context1).
     andThen (if holder \<noteq> Empty
              then with_closure closure1 (Print_object n (Execute_body n) holder context1)
              else Normal ''None'' (closure1, context1)) (\<lambda>text (closure2, context2).
       Print_args n args closure2
         (write_out (if args \<noteq> [] then text @ '' '' else text) context2)))"
| "Execute n (Assignment var rv) closure context =
     andThen (Execute n rv closure context) (\<lambda>v (closure1, context1).
       Normal v (closure1(var \<mapsto> v), context1))"
| "Execute n (VariableValue var_name dotted_ids) closure context =
     VariableValue_Execute var_name dotted_ids closure context"
| "Execute n (Print args) closure context =
     andThen (Print_args n args closure context) (\<lambda>u (closure1, context1).
       Normal Empty (closure1, write_out [newline_char] context1))"
| "Execute n (MethodCall object method args) closure context =
     andThen (Execute n object closure context) (\<lambda>v (closure1, context1).
       case TryAs_ClassInstance v of
         Some class_instance \<Rightarrow>
           andThen (Execute_args n args closure1 context1) (\<lambda>cur_args (closure2, context2).
             with_closure closure2 (Call (Execute_body n) class_instance method cur_args context2))
       | None \<Rightarrow> Normal Empty (closure1, context1))"
| "Execute n (Stringify argument) closure context =
     andThen (Execute n argument closure context) (\<lambda>holder (closure1, context1).
       if holder \<noteq> Empty then
         map_value String
           (with_closure closure1 (Print_object n (Execute_body n) holder context1))
       else Normal (String ''None'') (closure1, context1))"
| "Execute n (Add lhs rhs) closure context =
     andThen (Execute n lhs closure context) (\<lambda>lhs_holder (closure1, context1).
     andThen (Execute n rhs closure1 context1) (\<lambda>rhs_holder (closure2, context2).
       case both (TryAs_Number lhs_holder) (TryAs_Number rhs_holder) of
         Some (l, r) \<Rightarrow> Normal (Number (int_wrap (l + r))) (closure2, context2)
       | None \<Rightarrow> (case both (TryAs_String lhs_holder) (TryAs_String rhs_holder) of
         Some (l, r) \<Rightarrow> Normal (String (l @ r)) (closure2, context2)
       | None \<Rightarrow>
           andThen (Execute n lhs closure2 context2) (\<lambda>lhs_again (closure3, context3).
             case TryAs_ClassInstance lhs_again of
               Some lhs_class_instance \<Rightarrow>
                 andThen (Execute n rhs closure3 context3) (\<lambda>holder (closure4, context4).
                   with_closure closure4
                     (Call (Execute_body n) lhs_class_instance ''__add__'' [holder] context4))
             | None \<Rightarrow>
                 Throw (runtime_error ''Object addition operation error'')
                   (closure3, context3)))))"
| "Execute n (Sub lhs rhs) closure context =
     andThen (Execute n lhs closure context) (\<lambda>lhs_holder (closure1, context1).
     andThen (Execute n rhs closure1 context1) (\<lambda>rhs_holder (closure2, context2).
       case both (TryAs_Number lhs_holder) (TryAs_Number rhs_holder) of
         Some (l, r) \<Rightarrow> Normal (Number (int_wrap (l - r))) (closure2, context2)
       | None \<Rightarrow> Throw (runtime_error ''Object subtraction operation error'')
                (closure2, context2)))"
| "Execute n (Mult lhs rhs) closure context =
     andThen (Execute n lhs closure context) (\<lambda>lhs_holder (closure1, context1).
     andThen (Execute n rhs closure1 context1) (\<lambda>rhs_holder (closure2, context2).
       case both (TryAs_Number lhs_holder) (TryAs_Number rhs_holder) of
         Some (l, r) \<Rightarrow> Normal (Number (int_wrap (l * r))) (closure2, context2)
       | None \<Rightarrow> Throw (runtime_error ''Object multiplication operation error'')
                (closure2, context2)))"
| "Execute n (Div lhs rhs) closure context =
     andThen (Execute n lhs closure context) (\<lambda>lhs_holder (closure1, context1).
     andThen (Execute n rhs closure1 context1) (\<lambda>rhs_holder (closure2, context2).
       case both (TryAs_Number lhs_holder) (TryAs_Number rhs_holder) of
         Some (l, r) \<Rightarrow>
           (if r = 0 \<or> (l = INT_MIN \<and> r = - 1) then
              Throw undefined_division (closure2, context2)
            else Normal (Number (l sdiv r)) (closure2, context2))
       | None \<Rightarrow> Throw (runtime_error ''Object division operation error'')
                (closure2, context2)))"
| "Execute n (Compound args) closure context =
     andThen (Execute_each n args closure context) (\<lambda>u s. Normal Empty s)"
| "Execute n (Return statement) closure context =
     andThen (Execute n statement closure context) (\<lambda>v s. Throw (thrown_holder v) s)"
| "Execute n (ClassDefinition cls_holder) closure context =
     (case TryAs_Class cls_holder of
        Some c \<Rightarrow> Normal cls_holder (closure(GetName c \<mapsto> cls_holder), context)
      | None \<Rightarrow> Normal Empty (closure, context))"
| "Execute n (FieldAssignment var_name dotted_ids field_name rv) closure context =
     andThen (VariableValue_Execute var_name dotted_ids closure context)
       (\<lambda>object (closure1, context1).
         case TryAs_ClassInstance object of
           Some class_instance \<Rightarrow>
             andThen (Execute n rv closure1 context1) (\<lambda>v (closure2, context2).
               Normal v (closure2, set_field class_instance field_name v context2))
         | None \<Rightarrow> Normal Empty (closure1, context1))"
| "Execute n (IfElse condition if_body else_body) closure context =
     andThen (Execute n condition closure context) (\<lambda>v (closure1, context1).
       if IsTrue v then Execute n if_body closure1 context1
       else (case else_body of
               Some e \<Rightarrow> Execute n e closure1 context1
             | None \<Rightarrow> Normal Empty (closure1, context1)))"
| "Execute n (Or lhs rhs) closure context =
     andThen (Execute n lhs closure context) (\<lambda>l (closure1, context1).
       if IsTrue l then Normal (Bool True) (closure1, context1)
       else andThen (Execute n rhs closure1 context1) (\<lambda>r s.
              if IsTrue r then Normal (Bool True) s else Normal (Bool False) s))"
| "Execute n (And lhs rhs) closure context =
     andThen (Execute n lhs closure context) (\<lambda>l (closure1, context1).
       if IsTrue l then
         andThen (Execute n rhs closure1 context1) (\<lambda>r s.
           if IsTrue r then Normal (Bool True) s else Normal (Bool False) s)
       else Normal (Bool False) (closure1, context1))"
| "Execute n (Not_stmt argument) closure context =
     andThen (Execute n argument closure context) (\<lambda>v s. Normal (Bool (\<not> IsTrue v)) s)"
| "Execute n (Comparison cmp lhs rhs) closure context =
     andThen (Execute n lhs closure context) (\<lambda>lhs_holder (closure1, context1).
     andThen (Execute n rhs closure1 context1) (\<lambda>rhs_holder (closure2, context2).
       map_value Bool
         (with_closure closure2
            (apply_Comparator cmp (Execute_body n) lhs_holder rhs_holder context2))))"
| "Execute n (NewInstance class_instance args) closure context =
     (if HasMethod (instances context class_instance) ''__init__'' (length args) then
        andThen (Execute_args n args closure context) (\<lambda>result_args (closure1, context1).
        andThen (with_closure closure1
                   (Call (Execute_body n) class_instance ''__init__'' result_args context1))
          (\<lambda>u s. Normal (InstanceRef class_instance) s))
      else Normal (InstanceRef class_instance) (closure, context))"
| "Execute n (MethodBody b) closure context =
     (case Execute n b closure context of
        Normal v s \<Rightarrow> Normal Empty s
      | Throw e s \<Rightarrow> (case e of thrown_holder obj \<Rightarrow> Normal obj s | _ \<Rightarrow> Throw e s)
      | OutOfFuel \<Rightarrow> OutOfFuel)"
  by pat_completeness auto

termination
  apply (relation "inv_image (less_than <*lex*> less_than) (\<lambda>x. case x of
            Inl (Inl (n, s, _)) \<Rightarrow> (2 * n + 1, size s)
          | Inl (Inr (n, s, _)) \<Rightarrow> (2 * n, 0)
          | Inr (Inl (n, ss, _)) \<Rightarrow> (2 * n + 1, size_list size ss)
          | Inr (Inr (Inl (n, ss, _))) \<Rightarrow> (2 * n + 1, size_list size ss)
          | Inr (Inr (Inr (n, ss, _))) \<Rightarrow> (2 * n + 1, size_list size ss))")
  apply auto
  done

section \<open>Data of the examples\<close>

text \<open>The state in which the lexer stays on the input of claim C1.\<close>

definition stuck_lexer :: Lexer where
  "stuck_lexer =
     \<lparr>input = [],
      tokens = [If_token, Id_token ''x'', Char_token (CHR '':''), Newline_token, Indent_token,
                Id_token ''y'', Newline_token],
      is_start_line = True, indent = 1, cur_indent = 1\<rparr>"

text \<open>A store in which every instance is of a class without methods and has no field.\<close>

definition no_instances :: "nat \<Rightarrow> ClassInstance" where
  "no_instances = (\<lambda>a. \<lparr>cls = Class [] [] None, Fields = Map.empty\<rparr>)"

definition empty_context :: Context where
  "empty_context = \<lparr>instances = no_instances, output_stream = []\<rparr>"

text \<open>A store in which every instance has the one field \<open>f\<close>.\<close>

definition field_context :: Context where
  "field_context =
     \<lparr>instances = (\<lambda>a. \<lparr>cls = Class [] [] None, Fields = [''f'' \<mapsto> Number 7]\<rparr>),
      output_stream = []\<rparr>"

text \<open>
  The class of the example of claim C4:
  \<^verbatim>\<open>
  class Counter:
    def bump(self):
      self.k = self.k + self.k
      return self
    def __add__(self, other):
      return self.k
  \<close>
  and a store whose instances are counters with \<open>k = 1\<close>.
\<close>

definition Counter :: Class where
  "Counter = Class ''Counter''
     [Method ''bump'' []
        (MethodBody (Compound
           [FieldAssignment ''self'' [] ''k''
              (Add (VariableValue ''self'' [''k'']) (VariableValue ''self'' [''k''])),
            Return (VariableValue ''self'' [])])),
      Method ''__add__'' [''other''] (MethodBody (Return (VariableValue ''self'' [''k''])))]
     None"

definition Counter_context :: Context where
  "Counter_context =
     \<lparr>instances = (\<lambda>a. \<lparr>cls = Counter, Fields = [''k'' \<mapsto> Number 1]\<rparr>), output_stream = []\<rparr>"

definition frame :: Closure where
  "frame = [''x'' \<mapsto> Number 1, ''y'' \<mapsto> String ''r'', ''z'' \<mapsto> Number 0]"

section \<open>Notions of the claims\<close>

text \<open>
  The loop of \<^verbatim>\<open>ProcShielding\<close> as a total function on the stream: no value when the
  stream ends before a quote that is not escaped.
\<close>

fun unescaped :: "char \<Rightarrow> string \<Rightarrow> string \<Rightarrow> (string \<times> string) option" where
  "unescaped quotes [] str = None"
| "unescaped quotes [c] str = (if c = quotes then Some (str, [c]) else None)"
| "unescaped quotes (c # e # rest) str =
     (if c = quotes then Some (str, c # e # rest)
      else if c = backslash_char then
        unescaped quotes rest
          (if e = single_quote_char then str @ [single_quote_char]
           else if e = double_quote_char then str @ [double_quote_char]
           else if e = CHR ''n'' then str @ [newline_char]
           else if e = CHR ''t'' then str @ [tab_char]
           else str)
      else unescaped quotes (e # rest) (str @ [c]))"

text \<open>
  What an escape adds to the string, by the character after the backslash: the four
  cases of \<^verbatim>\<open>ProcShielding\<close>, and nothing for any other character.
\<close>

definition escape_value :: "char \<Rightarrow> string" where
  "escape_value e =
     (if e = single_quote_char then [single_quote_char]
      else if e = double_quote_char then [double_quote_char]
      else if e = CHR ''n'' then [newline_char]
      else if e = CHR ''t'' then [tab_char]
      else [])"

text \<open>
  A stretch of the inside of a string literal opened by \<open>quotes\<close>: characters other than
  the quote and the backslash, and escapes (a backslash with the character after it).
\<close>

fun literal_body :: "char \<Rightarrow> string \<Rightarrow> bool" where
  "literal_body quotes [] = True"
| "literal_body quotes [c] = (c \<noteq> quotes \<and> c \<noteq> backslash_char)"
| "literal_body quotes (c # e # cs) =
     (if c = quotes then False
      else if c = backslash_char then literal_body quotes cs
      else literal_body quotes (e # cs))"

text \<open>What such a stretch adds to the string.\<close>

fun literal_value :: "string \<Rightarrow> string" where
  "literal_value [] = []"
| "literal_value [c] = [c]"
| "literal_value (c # e # cs) =
     (if c = backslash_char then escape_value e @ literal_value cs
      else c # literal_value (e # cs))"

text \<open>A class with its ancestors, nearest first.\<close>

fun class_chain :: "Class \<Rightarrow> Class list" where
  "class_chain (Class nm ms par) =
     Class nm ms par # (case par of None \<Rightarrow> [] | Some p \<Rightarrow> class_chain p)"

text \<open>
  Following the words of claim C8: the class, directly or through its parent chain, has
  a method of that name and that number of formal parameters.
\<close>

definition has_method_of_arity :: "Class \<Rightarrow> string \<Rightarrow> nat \<Rightarrow> bool" where
  "has_method_of_arity c method_name k =
     (\<exists>cl \<in> set (class_chain c).
        case methods_map (methods cl) method_name of
          None \<Rightarrow> False
        | Some m \<Rightarrow> length (formal_params m) = k)"

text \<open>An exception that is an error, not the holder thrown by a return statement.\<close>

definition is_error :: "Exception \<Rightarrow> bool" where
  "is_error e = (case e of thrown_holder obj \<Rightarrow> False | _ \<Rightarrow> True)"

section \<open>Evaluation rules for the combinators\<close>

lemma andThen_simps [simp]:
  "andThen (Normal v s) f = f v s"
  "andThen (Throw e s) f = Throw e s"
  "andThen OutOfFuel f = OutOfFuel"
  by (simp_all add: andThen_def)

lemma map_value_simps [simp]:
  "map_value g (Normal v s) = Normal (g v) s"
  "map_value g (Throw e s) = Throw e s"
  "map_value g OutOfFuel = OutOfFuel"
  by (simp_all add: map_value_def)

lemma map_state_simps [simp]:
  "map_state g (Normal v s) = Normal v (g s)"
  "map_state g (Throw e s) = Throw e (g s)"
  "map_state g OutOfFuel = OutOfFuel"
  by (simp_all add: map_state_def)

lemma with_closure_simps [simp]:
  "with_closure c (Normal v s) = Normal v (c, s)"
  "with_closure c (Throw e s) = Throw e (c, s)"
  "with_closure c OutOfFuel = OutOfFuel"
  by (simp_all add: with_closure_def)

lemma both_simps [simp]:
  "both None y = None"
  "both x None = None"
  "both (Some a) (Some b) = Some (a, b)"
  by (simp_all add: both_def split: option.splits)

lemma TryAs_Number_simps [simp]:
  "TryAs_Number (Number i) = Some i" "TryAs_Number Empty = None"
  "TryAs_Number (String s) = None" "TryAs_Number (Bool b) = None"
  "TryAs_Number (ClassRef c) = None" "TryAs_Number (InstanceRef a) = None"
  by (simp_all add: TryAs_Number_def)

lemma TryAs_String_simps [simp]:
  "TryAs_String (String s) = Some s" "TryAs_String Empty = None"
  "TryAs_String (Number i) = None" "TryAs_String (Bool b) = None"
  "TryAs_String (ClassRef c) = None" "TryAs_String (InstanceRef a) = None"
  by (simp_all add: TryAs_String_def)

lemma TryAs_Bool_simps [simp]:
  "TryAs_Bool (Bool b) = Some b" "TryAs_Bool Empty = None"
  "TryAs_Bool (Number i) = None" "TryAs_Bool (String s) = None"
  "TryAs_Bool (ClassRef c) = None" "TryAs_Bool (InstanceRef a) = None"
  by (simp_all add: TryAs_Bool_def)

lemma TryAs_Class_simps [simp]:
  "TryAs_Class (ClassRef c) = Some c" "TryAs_Class Empty = None"
  "TryAs_Class (Number i) = None" "TryAs_Class (String s) = None"
  "TryAs_Class (Bool b) = None" "TryAs_Class (InstanceRef a) = None"
  by (simp_all add: TryAs_Class_def)

lemma TryAs_ClassInstance_simps [simp]:
  "TryAs_ClassInstance (InstanceRef a) = Some a" "TryAs_ClassInstance Empty = None"
  "TryAs_ClassInstance (Number i) = None" "TryAs_ClassInstance (String s) = None"
  "TryAs_ClassInstance (Bool b) = None" "TryAs_ClassInstance (ClassRef c) = None"
  by (simp_all add: TryAs_ClassInstance_def)

lemma TryAs_ClassInstance_Some: "TryAs_ClassInstance h = Some a \<longleftrightarrow> h = InstanceRef a"
  by (cases h) simp_all

lemma IsTrue_simps [simp]:
  "IsTrue Empty = False" "IsTrue (Number i) = (i \<noteq> 0)" "IsTrue (String s) = (s \<noteq> [])"
  "IsTrue (Bool b) = b" "IsTrue (ClassRef c) = False" "IsTrue (InstanceRef a) = False"
  by (simp_all add: IsTrue_def)

section \<open>The lexer: claims C1, C2 and C10\<close>

lemma NextToken_times_end:
  "NextToken_times (Suc n) r =
     (case NextToken_times n r of
        Returned l \<Rightarrow> NextToken l
      | Threw_out_of_range \<Rightarrow> Threw_out_of_range
      | NoReturn \<Rightarrow> NoReturn)"
proof (induction n arbitrary: r)
  case 0
  show ?case by (cases r) simp_all
next
  case (Suc n)
  show ?case
  proof (cases r)
    case (Returned l)
    have "NextToken_times (Suc (Suc n)) r = NextToken_times (Suc n) (NextToken l)"
      using Returned by simp
    also have "\<dots> = (case NextToken_times n (NextToken l) of
        Returned l \<Rightarrow> NextToken l
      | Threw_out_of_range \<Rightarrow> Threw_out_of_range
      | NoReturn \<Rightarrow> NoReturn)"
      by (rule Suc.IH)
    also have "NextToken_times n (NextToken l) = NextToken_times (Suc n) r"
      using Returned by simp
    finally show ?thesis .
  qed simp_all
qed

lemma stuck_reached: "lex (''if x:'' @ [newline_char] @ ''  y'') 6 = Returned stuck_lexer"
  by code_simp

lemma stuck_fixed: "NextToken stuck_lexer = Returned stuck_lexer"
  by code_simp

text \<open>
  Claim C1 (for every finite input repeated calls of \<^verbatim>\<open>NextToken\<close> eventually return
  \<^verbatim>\<open>Eof\<close>, and after \<^verbatim>\<open>Eof\<close> every further call returns \<^verbatim>\<open>Eof\<close>) fails on the code. On the
  input of two lines \<^verbatim>\<open>if x:\<close> and \<^verbatim>\<open>  y\<close>, the second without a line terminator, the
  constructor and six calls of \<^verbatim>\<open>NextToken\<close> reach a state that every further call
  leaves as it is, with the current token \<^verbatim>\<open>Newline\<close>: \<^verbatim>\<open>ProcEndStream\<close> emits the
  \<^verbatim>\<open>Newline\<close> without resetting \<^verbatim>\<open>indent\<close> to 0 (as \<^verbatim>\<open>ProcEndOfLine\<close> does), and then finds
  \<^verbatim>\<open>cur_indent = indent = 1\<close>, where it emits nothing. \<^verbatim>\<open>Eof\<close> is never returned.
\<close>

theorem C1_Eof_never_returned:
  "lex (''if x:'' @ [newline_char] @ ''  y'') (6 + n) = Returned stuck_lexer \<and>
   CurrentToken stuck_lexer = Some Newline_token"
proof
  show "lex (''if x:'' @ [newline_char] @ ''  y'') (6 + n) = Returned stuck_lexer"
  proof (induction n)
    case 0
    show ?case using stuck_reached by simp
  next
    case (Suc n)
    have "lex (''if x:'' @ [newline_char] @ ''  y'') (6 + Suc n) =
          NextToken_times (Suc (6 + n)) (Lexer_ctor (''if x:'' @ [newline_char] @ ''  y''))"
      by (simp add: lex_def)
    also have "\<dots> = (case lex (''if x:'' @ [newline_char] @ ''  y'') (6 + n) of
        Returned l \<Rightarrow> NextToken l
      | Threw_out_of_range \<Rightarrow> Threw_out_of_range
      | NoReturn \<Rightarrow> NoReturn)"
      unfolding lex_def by (rule NextToken_times_end)
    also have "\<dots> = Returned stuck_lexer"
      using Suc.IH stuck_fixed by simp
    finally show ?case .
  qed
  show "CurrentToken stuck_lexer = Some Newline_token"
    by code_simp
qed

text \<open>
  The initial value of \<^verbatim>\<open>is_start_line\<close> plays no part in this: started in the middle
  of a line, the lexer reaches the same state, and no other, by the same calls.
\<close>

lemma stuck_reached_from_mid_line:
  "NextToken_times 6
     (FindNextToken ((initial_state (''if x:'' @ [newline_char] @ ''  y''))
        \<lparr>is_start_line := False\<rparr>)) = Returned stuck_lexer"
  by code_simp

text \<open>
  Two more inputs on which the lexer does not do what claim C1 says. After a comment
  that ends the input \<^verbatim>\<open>ProcComment\<close> emits \<^verbatim>\<open>Eof\<close> in the middle of a line, and the next
  call emits \<^verbatim>\<open>Newline\<close>. On a string literal that is not closed the loop of
  \<^verbatim>\<open>ProcShielding\<close> never ends: the loop is the total function \<open>unescaped\<close>, which has no
  value when the stream ends inside the literal.
\<close>

lemma Eof_then_Newline_after_comment:
  "lex ''x # c'' 2 =
     Returned \<lparr>input = [], tokens = [Id_token ''x'', Eof_token, Newline_token],
       is_start_line = True, indent = 0, cur_indent = 0\<rparr>"
  by code_simp

lemma ProcShielding_loop_end_of_stream:
  assumes "ProcShielding_loop quotes inp str = Some r"
  shows "inp \<noteq> [] \<or> quotes = EOF_char"
  using assms
proof (induction rule: ProcShielding_loop.raw_induct[rotated 1, consumes 1])
  case (1 loop quotes inp str r)
  show ?case
  proof (cases inp)
    case Nil
    show ?thesis
    proof (cases "quotes = EOF_char")
      case True
      then show ?thesis by simp
    next
      case False
      have "peek inp \<noteq> backslash_char"
        using Nil by (simp add: peek_def EOF_char_def backslash_char_def)
      with 1(2) Nil False have "loop quotes [] (str @ [EOF_char]) = Some r"
        by (simp add: peek_def get_def Let_def)
      from 1(1)[OF this] False show ?thesis by simp
    qed
  qed simp
qed

lemma ProcShielding_loop_Nil:
  "quotes \<noteq> EOF_char \<Longrightarrow> ProcShielding_loop quotes [] str = None"
  using ProcShielding_loop_end_of_stream [of quotes "[]" str]
  by (cases "ProcShielding_loop quotes [] str") auto

lemma ProcShielding_loop_unescaped:
  "quotes \<noteq> EOF_char \<Longrightarrow> ProcShielding_loop quotes inp str = unescaped quotes inp str"
proof (induction quotes inp str rule: unescaped.induct)
  case (1 quotes str)
  then show ?case by (simp add: ProcShielding_loop_Nil)
next
  case (2 quotes c str)
  show ?case
  proof (cases "c = quotes")
    case True
    then show ?thesis by (subst ProcShielding_loop.simps) (simp add: peek_def)
  next
    case False
    then show ?thesis
      using 2 by (subst ProcShielding_loop.simps)
        (simp add: peek_def get_def Let_def ProcShielding_loop_Nil)
  qed
next
  case (3 quotes c e rest str)
  show ?case
  proof (cases "c = quotes")
    case True
    then show ?thesis by (subst ProcShielding_loop.simps) (simp add: peek_def)
  next
    case False
    show ?thesis
    proof (cases "c = backslash_char")
      case True
      let ?str1 = "if e = single_quote_char then str @ [single_quote_char]
           else if e = double_quote_char then str @ [double_quote_char]
           else if e = CHR ''n'' then str @ [newline_char]
           else if e = CHR ''t'' then str @ [tab_char]
           else str"
      have "ProcShielding_loop quotes (c # e # rest) str = ProcShielding_loop quotes rest ?str1"
        using False True
        by (subst ProcShielding_loop.simps)
          (simp add: peek_def get_def Let_def split del: if_split cong: if_cong)
      also have "\<dots> = unescaped quotes rest ?str1"
        using 3(1) [OF False True] 3(3) by simp
      finally show ?thesis using False True by simp
    next
      case nb: False
      with False 3 show ?thesis
        by (subst ProcShielding_loop.simps) (simp add: peek_def get_def Let_def)
    qed
  qed
qed

lemma ProcShielding_loop_unclosed:
  assumes "quotes \<noteq> EOF_char" and "quotes \<notin> set inp"
  shows "ProcShielding_loop quotes inp str = None"
proof -
  have "quotes \<notin> set inp \<Longrightarrow> unescaped quotes inp str = None"
    by (induction quotes inp str rule: unescaped.induct) auto
  with assms show ?thesis
    by (simp add: ProcShielding_loop_unescaped)
qed

lemma unclosed_string_never_returns:
  assumes "double_quote_char \<notin> set inp"
  shows "Lexer_ctor (double_quote_char # inp) = NoReturn"
proof -
  have "ProcShielding_loop double_quote_char inp [] = None"
    using assms by (intro ProcShielding_loop_unclosed) (simp_all add: double_quote_char_def EOF_char_def)
  then show ?thesis
    by (simp add: Lexer_ctor_def initial_state_def FindNextToken.simps get_def EOF_char_def
        double_quote_char_def space_char_def newline_char_def isdigit_def isalpha_def
        single_quote_char_def ProcShielding_def)
qed

text \<open>
  Claim C2 (a line of only whitespace or only a comment emits no \<^verbatim>\<open>Newline\<close> and leaves
  \<^verbatim>\<open>indent\<close> as it is, so the \<^verbatim>\<open>Indent\<close> and \<^verbatim>\<open>Dedent\<close> tokens of the following lines are
  those of the input without the line) fails on the code. Between the lines \<^verbatim>\<open>x\<close> and
  \<^verbatim>\<open>y\<close> a line of four spaces makes the lexer emit two \<^verbatim>\<open>Indent\<close> tokens before \<^verbatim>\<open>y\<close> and
  two \<^verbatim>\<open>Dedent\<close> tokens at the end; without that line it emits none. \<^verbatim>\<open>ProcSpace\<close> sets
  \<^verbatim>\<open>indent\<close> from the spaces of the blank line, and \<^verbatim>\<open>ProcEndOfLine\<close> at a line start
  does not reset it.
\<close>

theorem C2_blank_line_changes_indentation:
  "lex (''x'' @ [newline_char] @ ''    '' @ [newline_char] @ ''y'' @ [newline_char]) 8 =
     Returned \<lparr>input = [], tokens = [Id_token ''x'', Newline_token, Indent_token, Indent_token,
        Id_token ''y'', Newline_token, Dedent_token, Dedent_token, Eof_token],
        is_start_line = True, indent = 0, cur_indent = 0\<rparr> \<and>
   lex (''x'' @ [newline_char] @ ''y'' @ [newline_char]) 4 =
     Returned \<lparr>input = [], tokens = [Id_token ''x'', Newline_token, Id_token ''y'', Newline_token,
        Eof_token], is_start_line = True, indent = 0, cur_indent = 0\<rparr>"
  by code_simp

text \<open>An indented line that holds only a comment has the same effect.\<close>

lemma comment_line_emits_Indent:
  "lex (''x'' @ [newline_char] @ ''  # c'' @ [newline_char] @ ''y'' @ [newline_char]) 6 =
     Returned \<lparr>input = [], tokens = [Id_token ''x'', Newline_token, Indent_token,
        Id_token ''y'', Newline_token, Dedent_token, Eof_token],
        is_start_line = True, indent = 0, cur_indent = 0\<rparr>"
  by code_simp

text \<open>One pass of the loop of \<^verbatim>\<open>ProcShielding\<close>, and the loop over a stretch of a literal.\<close>

lemma ProcShielding_loop_plain:
  "c \<noteq> quotes \<Longrightarrow> c \<noteq> backslash_char \<Longrightarrow>
   ProcShielding_loop quotes (c # inp) str = ProcShielding_loop quotes inp (str @ [c])"
  by (subst ProcShielding_loop.simps) (simp add: peek_def get_def Let_def)

lemma ProcShielding_loop_escape:
  "quotes \<noteq> backslash_char \<Longrightarrow>
   ProcShielding_loop quotes (backslash_char # e # inp) str =
   ProcShielding_loop quotes inp (str @ escape_value e)"
  by (subst ProcShielding_loop.simps) (simp add: peek_def get_def Let_def escape_value_def)

lemma ProcShielding_loop_quote:
  "ProcShielding_loop quotes (quotes # inp) str = Some (str, quotes # inp)"
  by (subst ProcShielding_loop.simps) (simp add: peek_def)

lemma ProcShielding_loop_body:
  "literal_body quotes pre \<Longrightarrow>
   ProcShielding_loop quotes (pre @ inp) str =
   ProcShielding_loop quotes inp (str @ literal_value pre)"
proof (induction quotes pre arbitrary: str rule: literal_body.induct)
  case (1 quotes)
  show ?case by simp
next
  case (2 quotes c)
  then show ?case by (simp add: ProcShielding_loop_plain)
next
  case (3 quotes c e cs)
  from 3(3) have nq: "c \<noteq> quotes" by (simp split: if_splits)
  show ?case
  proof (cases "c = backslash_char")
    case True
    with nq have qb: "quotes \<noteq> backslash_char" by simp
    from 3(3) nq True have b: "literal_body quotes cs" by simp
    have "ProcShielding_loop quotes ((c # e # cs) @ inp) str =
          ProcShielding_loop quotes (cs @ inp) (str @ escape_value e)"
      using True ProcShielding_loop_escape [OF qb] by simp
    also have "\<dots> = ProcShielding_loop quotes inp ((str @ escape_value e) @ literal_value cs)"
      using 3(1) [OF nq True b] by simp
    finally show ?thesis using True by simp
  next
    case False
    from 3(3) nq False have b: "literal_body quotes (e # cs)" by simp
    have "ProcShielding_loop quotes ((c # e # cs) @ inp) str =
          ProcShielding_loop quotes ((e # cs) @ inp) (str @ [c])"
      using ProcShielding_loop_plain [OF nq False] by simp
    also have "\<dots> = ProcShielding_loop quotes inp ((str @ [c]) @ literal_value (e # cs))"
      using 3(2) [OF nq False b] by simp
    finally show ?thesis using False by simp
  qed
qed

lemma escape_value_unrecognized:
  "e \<noteq> single_quote_char \<Longrightarrow> e \<noteq> double_quote_char \<Longrightarrow> e \<noteq> CHR ''n'' \<Longrightarrow>
   e \<noteq> CHR ''t'' \<Longrightarrow> escape_value e = []"
  by (simp add: escape_value_def)

text \<open>
  Claim C10: inside a string literal, a backslash followed by a character other than
  the single quote, the double quote, \<^verbatim>\<open>n\<close> and \<^verbatim>\<open>t\<close> consumes both characters and adds
  nothing to the value of the \<^verbatim>\<open>String\<close> token. With the stretch \<open>pre\<close> of the literal before
  the backslash: \<^verbatim>\<open>ProcShielding\<close> does on the stream with the two characters exactly what
  it does on the stream without them; when the stretch \<open>post\<close> and the closing quote
  follow, it returns with the whole literal consumed and emits the \<^verbatim>\<open>String\<close> token whose
  value is what \<open>pre\<close> and \<open>post\<close> add, with nothing between them; and so does
  \<^verbatim>\<open>FindNextToken\<close> on the literal with its opening quote, when no \<^verbatim>\<open>Indent\<close> or \<^verbatim>\<open>Dedent\<close> is
  due.
\<close>

theorem C10_unrecognized_escape_dropped:
  assumes q: "quotes = single_quote_char \<or> quotes = double_quote_char"
    and e: "e \<noteq> single_quote_char" "e \<noteq> double_quote_char" "e \<noteq> CHR ''n''" "e \<noteq> CHR ''t''"
    and pre: "literal_body quotes pre"
    and post: "literal_body quotes post"
    and ind: "\<not> (cur_indent l \<noteq> indent l \<and> is_start_line l)"
  shows "ProcShielding quotes (l\<lparr>input := pre @ backslash_char # e # inp\<rparr>) =
         ProcShielding quotes (l\<lparr>input := pre @ inp\<rparr>) \<and>
         ProcShielding quotes (l\<lparr>input := pre @ backslash_char # e # post @ quotes # rest\<rparr>) =
         Returned ((emplace_back (String_token (literal_value pre @ literal_value post))
                      (l\<lparr>input := rest\<rparr>))\<lparr>is_start_line := False\<rparr>) \<and>
         FindNextToken (l\<lparr>input := quotes # pre @ backslash_char # e # post @ quotes # rest\<rparr>) =
         Returned ((emplace_back (String_token (literal_value pre @ literal_value post))
                      (l\<lparr>input := rest\<rparr>))\<lparr>is_start_line := False\<rparr>)"
proof -
  from q have qb: "quotes \<noteq> backslash_char"
    by (auto simp: single_quote_char_def double_quote_char_def backslash_char_def)
  have drop: "ProcShielding_loop quotes (pre @ backslash_char # e # x) [] =
              ProcShielding_loop quotes x (literal_value pre)" for x
    using ProcShielding_loop_body [OF pre, of "backslash_char # e # x" "[]"]
      ProcShielding_loop_escape [OF qb, of e x "literal_value pre"]
      escape_value_unrecognized [OF e]
    by simp
  have keep: "ProcShielding_loop quotes (pre @ x) [] =
              ProcShielding_loop quotes x (literal_value pre)" for x
    using ProcShielding_loop_body [OF pre, of x "[]"] by simp
  have a: "ProcShielding quotes (l\<lparr>input := pre @ backslash_char # e # inp\<rparr>) =
           ProcShielding quotes (l\<lparr>input := pre @ inp\<rparr>)"
  proof -
    have eq: "ProcShielding_loop quotes (pre @ backslash_char # e # inp) [] =
              ProcShielding_loop quotes (pre @ inp) []"
      by (simp only: drop [of inp] keep [of inp])
    show ?thesis
      by (simp add: ProcShielding_def eq split: option.splits)
  qed
  have "ProcShielding_loop quotes (pre @ backslash_char # e # post @ quotes # rest) [] =
        ProcShielding_loop quotes (post @ quotes # rest) (literal_value pre)"
    by (rule drop)
  also have "\<dots> = ProcShielding_loop quotes (quotes # rest) (literal_value pre @ literal_value post)"
    by (rule ProcShielding_loop_body [OF post])
  also have "\<dots> = Some (literal_value pre @ literal_value post, quotes # rest)"
    by (rule ProcShielding_loop_quote)
  finally have loop: "ProcShielding_loop quotes
      (pre @ backslash_char # e # post @ quotes # rest) [] =
      Some (literal_value pre @ literal_value post, quotes # rest)" .
  have b: "ProcShielding quotes (l\<lparr>input := pre @ backslash_char # e # post @ quotes # rest\<rparr>) =
         Returned ((emplace_back (String_token (literal_value pre @ literal_value post))
                      (l\<lparr>input := rest\<rparr>))\<lparr>is_start_line := False\<rparr>)"
    by (simp add: ProcShielding_def loop get_def)
  have "FindNextToken (l\<lparr>input := quotes # pre @ backslash_char # e # post @ quotes # rest\<rparr>) =
        ProcShielding quotes (l\<lparr>input := pre @ backslash_char # e # post @ quotes # rest\<rparr>)"
    using q ind
    by (subst FindNextToken.simps)
      (auto simp: get_def Let_def EOF_char_def space_char_def newline_char_def
        single_quote_char_def double_quote_char_def isdigit_def isalpha_def)
  with b have c: "FindNextToken
      (l\<lparr>input := quotes # pre @ backslash_char # e # post @ quotes # rest\<rparr>) =
         Returned ((emplace_back (String_token (literal_value pre @ literal_value post))
                      (l\<lparr>input := rest\<rparr>))\<lparr>is_start_line := False\<rparr>)"
    by simp
  from a b c show ?thesis by blast
qed

theorem C10_witness:
  "literal_body double_quote_char ''a'' \<and> literal_body double_quote_char ''b'' \<and>
   ProcShielding double_quote_char
     ((initial_state [])\<lparr>input := ''a'' @ backslash_char # CHR ''q'' # ''b'' @ [double_quote_char]\<rparr>) =
   ProcShielding double_quote_char
     ((initial_state [])\<lparr>input := ''a'' @ ''b'' @ [double_quote_char]\<rparr>) \<and>
   ProcShielding double_quote_char
     ((initial_state [])\<lparr>input := ''a'' @ backslash_char # CHR ''q'' # ''b'' @ double_quote_char # '' x''\<rparr>) =
   Returned \<lparr>input = '' x'', tokens = [String_token ''ab''], is_start_line = False,
     indent = 0, cur_indent = 0\<rparr> \<and>
   FindNextToken
     (initial_state (double_quote_char # ''a'' @ backslash_char # CHR ''q'' # ''b''
        @ double_quote_char # '' x'')) =
   Returned \<lparr>input = '' x'', tokens = [String_token ''ab''], is_start_line = False,
     indent = 0, cur_indent = 0\<rparr>"
proof -
  have q: "double_quote_char = single_quote_char \<or> double_quote_char = double_quote_char"
    by simp
  have e: "CHR ''q'' \<noteq> single_quote_char" "CHR ''q'' \<noteq> double_quote_char"
    "CHR ''q'' \<noteq> CHR ''n''" "CHR ''q'' \<noteq> CHR ''t''"
    by (simp_all add: single_quote_char_def double_quote_char_def)
  have pre: "literal_body double_quote_char ''a''"
    and post: "literal_body double_quote_char ''b''"
    by (simp_all add: double_quote_char_def backslash_char_def)
  have ind: "\<not> (cur_indent (initial_state []) \<noteq> indent (initial_state []) \<and>
                 is_start_line (initial_state []))"
    by (simp add: initial_state_def)
  from C10_unrecognized_escape_dropped [OF q e pre post ind,
      of "''b'' @ [double_quote_char]" "'' x''"] pre post
  show ?thesis
    by (simp add: initial_state_def emplace_back_def)
qed

text \<open>The token of a whole literal with such an escape: the escaped character is gone.\<close>

lemma string_token_without_escaped_character:
  "Lexer_ctor ([double_quote_char] @ ''a'' @ [backslash_char] @ ''qb'' @ [double_quote_char]) =
     Returned \<lparr>input = [], tokens = [String_token ''ab''], is_start_line = False,
       indent = 0, cur_indent = 0\<rparr>"
  by code_simp

section \<open>The evaluator and the runtime: claims C3 to C9\<close>

text \<open>
  Claim C3 (an \<^verbatim>\<open>And\<close> or \<^verbatim>\<open>Or\<close> node evaluates both operands, with the side effects of
  both, and yields the conjunction or disjunction of their truth values) does not hold of
  the code: \<^verbatim>\<open>Or::Execute\<close> and \<^verbatim>\<open>And::Execute\<close> join the two executions with the operators
  \<^verbatim>\<open>||\<close> and \<^verbatim>\<open>&&\<close> of C++, which do not evaluate the right operand when the left one
  decides. With \<open>x = 1\<close> the node \<^verbatim>\<open>x or (y = x)\<close> yields \<^verbatim>\<open>True\<close> and leaves \<open>y\<close> unbound,
  though its right operand alone binds \<open>y\<close>; with \<open>z = 0\<close> the same holds of
  \<^verbatim>\<open>z and (y = z)\<close>.
\<close>

theorem C3_counterexample:
  "Execute 0 (Or (VariableValue ''x'' []) (Assignment ''y'' (VariableValue ''x'' [])))
     [''x'' \<mapsto> Number 1] empty_context =
     Normal (Bool True) ([''x'' \<mapsto> Number 1], empty_context) \<and>
   Execute 0 (And (VariableValue ''z'' []) (Assignment ''y'' (VariableValue ''z'' [])))
     [''z'' \<mapsto> Number 0] empty_context =
     Normal (Bool False) ([''z'' \<mapsto> Number 0], empty_context) \<and>
   Execute 0 (Assignment ''y'' (VariableValue ''x'' [])) [''x'' \<mapsto> Number 1] empty_context =
     Normal (Number 1) ([''x'' \<mapsto> Number 1, ''y'' \<mapsto> Number 1], empty_context) \<and>
   [''x'' \<mapsto> Number 1] ''y'' = None \<and>
   [''x'' \<mapsto> Number 1, ''y'' \<mapsto> Number 1] ''y'' = Some (Number 1)"
  by (simp add: VariableValue_Execute_def)

text \<open>
  Claim C3 as amended: an \<^verbatim>\<open>Or\<close> node evaluates its left operand; when that is true the
  node yields \<^verbatim>\<open>Bool(true)\<close> in the state the left operand left, the right operand not
  being evaluated; otherwise it evaluates the right operand and yields the disjunction
  of the two truth values. An \<^verbatim>\<open>And\<close> node evaluates its left operand; when that is
  false the node yields \<^verbatim>\<open>Bool(false)\<close> without evaluating the right operand; otherwise
  it evaluates the right operand and yields the conjunction of the two truth values.
\<close>

theorem C3_short_circuit:
  "(Execute n lhs c ctx = Normal l (c', ctx') \<longrightarrow> IsTrue l \<longrightarrow>
      Execute n (Or lhs rhs) c ctx = Normal (Bool True) (c', ctx')) \<and>
   (Execute n lhs c ctx = Normal l (c', ctx') \<longrightarrow> \<not> IsTrue l \<longrightarrow>
      Execute n rhs c' ctx' = Normal r s' \<longrightarrow>
      Execute n (Or lhs rhs) c ctx = Normal (Bool (IsTrue l \<or> IsTrue r)) s') \<and>
   (Execute n lhs c ctx = Normal l (c', ctx') \<longrightarrow> \<not> IsTrue l \<longrightarrow>
      Execute n (And lhs rhs) c ctx = Normal (Bool False) (c', ctx')) \<and>
   (Execute n lhs c ctx = Normal l (c', ctx') \<longrightarrow> IsTrue l \<longrightarrow>
      Execute n rhs c' ctx' = Normal r s' \<longrightarrow>
      Execute n (And lhs rhs) c ctx = Normal (Bool (IsTrue l \<and> IsTrue r)) s')"
  by simp


theorem C3_witness:
  "Execute 0 (VariableValue ''x'' []) [''x'' \<mapsto> Number 1, ''z'' \<mapsto> Number 0] empty_context =
     Normal (Number 1) ([''x'' \<mapsto> Number 1, ''z'' \<mapsto> Number 0], empty_context) \<and>
   IsTrue (Number 1) \<and>
   Execute 0 (Or (VariableValue ''x'' []) (Assignment ''y'' (VariableValue ''x'' [])))
     [''x'' \<mapsto> Number 1, ''z'' \<mapsto> Number 0] empty_context =
     Normal (Bool True) ([''x'' \<mapsto> Number 1, ''z'' \<mapsto> Number 0], empty_context) \<and>
   Execute 0 (VariableValue ''z'' []) [''x'' \<mapsto> Number 1, ''z'' \<mapsto> Number 0] empty_context =
     Normal (Number 0) ([''x'' \<mapsto> Number 1, ''z'' \<mapsto> Number 0], empty_context) \<and>
   \<not> IsTrue (Number 0) \<and>
   Execute 0 (Or (VariableValue ''z'' []) (VariableValue ''x'' []))
     [''x'' \<mapsto> Number 1, ''z'' \<mapsto> Number 0] empty_context =
     Normal (Bool (IsTrue (Number 0) \<or> IsTrue (Number 1)))
       ([''x'' \<mapsto> Number 1, ''z'' \<mapsto> Number 0], empty_context) \<and>
   Execute 0 (And (VariableValue ''z'' []) (Assignment ''y'' (VariableValue ''x'' [])))
     [''x'' \<mapsto> Number 1, ''z'' \<mapsto> Number 0] empty_context =
     Normal (Bool False) ([''x'' \<mapsto> Number 1, ''z'' \<mapsto> Number 0], empty_context) \<and>
   Execute 0 (And (VariableValue ''x'' []) (VariableValue ''z'' []))
     [''x'' \<mapsto> Number 1, ''z'' \<mapsto> Number 0] empty_context =
     Normal (Bool (IsTrue (Number 1) \<and> IsTrue (Number 0)))
       ([''x'' \<mapsto> Number 1, ''z'' \<mapsto> Number 0], empty_context)"
proof -
  let ?c = "[''x'' \<mapsto> Number 1, ''z'' \<mapsto> Number 0]"
  have x: "Execute 0 (VariableValue ''x'' []) ?c empty_context =
     Normal (Number 1) (?c, empty_context)"
    by (simp add: VariableValue_Execute_def)
  have z: "Execute 0 (VariableValue ''z'' []) ?c empty_context =
     Normal (Number 0) (?c, empty_context)"
    by (simp add: VariableValue_Execute_def)
  have t: "IsTrue (Number 1)" and f: "\<not> IsTrue (Number 0)" by simp_all
  note th = C3_short_circuit [where n = 0 and c = ?c and ctx = empty_context
      and c' = ?c and ctx' = empty_context and s' = "(?c, empty_context)"]
  from th [where lhs = "VariableValue ''x'' []" and l = "Number 1"
      and rhs = "Assignment ''y'' (VariableValue ''x'' [])"] x t
  have a: "Execute 0 (Or (VariableValue ''x'' []) (Assignment ''y'' (VariableValue ''x'' [])))
     ?c empty_context = Normal (Bool True) (?c, empty_context)" by blast
  from th [where lhs = "VariableValue ''z'' []" and l = "Number 0"
      and rhs = "VariableValue ''x'' []" and r = "Number 1"] z f x
  have b: "Execute 0 (Or (VariableValue ''z'' []) (VariableValue ''x'' [])) ?c empty_context =
     Normal (Bool (IsTrue (Number 0) \<or> IsTrue (Number 1))) (?c, empty_context)" by blast
  from th [where lhs = "VariableValue ''z'' []" and l = "Number 0"
      and rhs = "Assignment ''y'' (VariableValue ''x'' [])"] z f
  have c: "Execute 0 (And (VariableValue ''z'' []) (Assignment ''y'' (VariableValue ''x'' [])))
     ?c empty_context = Normal (Bool False) (?c, empty_context)" by blast
  from th [where lhs = "VariableValue ''x'' []" and l = "Number 1"
      and rhs = "VariableValue ''z'' []" and r = "Number 0"] x t z
  have d: "Execute 0 (And (VariableValue ''x'' []) (VariableValue ''z'' [])) ?c empty_context =
     Normal (Bool (IsTrue (Number 1) \<and> IsTrue (Number 0))) (?c, empty_context)" by blast
  from x t a z f b c d show ?thesis by blast
qed

text \<open>
  Claim C4 (\<^verbatim>\<open>Add::Execute\<close> evaluates each operand exactly once) fails on the code, by a
  slip: when the operands are neither two numbers nor two strings, \<^verbatim>\<open>Add::Execute\<close> does
  not test the holder it has but executes the left operand again, and for a class
  instance executes the right operand again as well. With \<open>c\<close> a \<open>Counter\<close> whose \<open>k\<close> is 1,
  \<^verbatim>\<open>c.bump() + one\<close> yields 4 and leaves \<open>k = 4\<close>, where one execution of \<^verbatim>\<open>c.bump()\<close>
  leaves \<open>k = 2\<close>. With \<open>n = 1\<close> and \<open>s\<close> a string, \<^verbatim>\<open>(n = n + n) + s\<close> throws with \<open>n = 4\<close>.
\<close>

theorem C4_operands_executed_twice:
  "(case Execute 1 (Add (MethodCall (VariableValue ''c'' []) ''bump'' []) (VariableValue ''one'' []))
           [''c'' \<mapsto> InstanceRef 0, ''one'' \<mapsto> Number 1] Counter_context of
      Normal v (closure, context) \<Rightarrow>
        v = Number 4 \<and> Fields (instances context 0) ''k'' = Some (Number 4)
    | Throw e s \<Rightarrow> False
    | OutOfFuel \<Rightarrow> False) \<and>
   (case Execute 1 (MethodCall (VariableValue ''c'' []) ''bump'' [])
           [''c'' \<mapsto> InstanceRef 0, ''one'' \<mapsto> Number 1] Counter_context of
      Normal v (closure, context) \<Rightarrow>
        v = InstanceRef 0 \<and> Fields (instances context 0) ''k'' = Some (Number 2)
    | Throw e s \<Rightarrow> False
    | OutOfFuel \<Rightarrow> False) \<and>
   (case Execute 0 (Add (Assignment ''n'' (Add (VariableValue ''n'' []) (VariableValue ''n'' [])))
                        (VariableValue ''s'' []))
           [''n'' \<mapsto> Number 1, ''s'' \<mapsto> String ''a''] empty_context of
      Normal v s \<Rightarrow> False
    | Throw e (closure, context) \<Rightarrow>
        e = runtime_error ''Object addition operation error'' \<and> closure ''n'' = Some (Number 4)
    | OutOfFuel \<Rightarrow> False)"
  by code_simp

text \<open>
  Claim C5 (a dotted segment applied to a value that is not a class instance fails)
  does not hold of the code: \<^verbatim>\<open>VariableValue::Execute\<close> tests the holder with \<^verbatim>\<open>TryAs\<close> and
  has no else branch, so such a segment is passed over. With \<open>x = 5\<close> the node \<^verbatim>\<open>x.a.b\<close>
  yields 5.
\<close>

theorem C5_counterexample:
  "Execute 0 (VariableValue ''x'' [''a'', ''b'']) [''x'' \<mapsto> Number 5] empty_context =
     Normal (Number 5) ([''x'' \<mapsto> Number 5], empty_context) \<and>
   TryAs_ClassInstance (Number 5) = None"
  by (simp add: VariableValue_Execute_def)

lemma follow_dotted_ids_non_instance:
  "TryAs_ClassInstance h = None \<Longrightarrow> follow_dotted_ids ctx ds h = Inr h"
  by (induction ds) simp_all

text \<open>
  Claim C5 as amended: when the head name is absent from the closure, execution fails
  with the runtime error \<^verbatim>\<open>Variable "<name>" is not found\<close>; otherwise the result is that of
  following the dotted segments from the value of the head, where a segment applied to a
  class instance fails (with \<^verbatim>\<open>std::out_of_range\<close>) when the instance has no such field and
  goes on with the value of the field when it has, and a segment applied to a value
  that is not a class instance is skipped and leaves the value as it is. Neither the
  closure nor the context is changed.
\<close>

theorem C5_VariableValue_failures:
  "(c var = None \<longrightarrow>
      Execute n (VariableValue var ds) c ctx =
        Throw (runtime_error (''Variable '' @ [double_quote_char] @ var @ [double_quote_char]
                 @ '' is not found'')) (c, ctx)) \<and>
   (c var = Some h \<longrightarrow> follow_dotted_ids ctx ds h = Inr v \<longrightarrow>
      Execute n (VariableValue var ds) c ctx = Normal v (c, ctx)) \<and>
   (c var = Some h \<longrightarrow> follow_dotted_ids ctx ds h = Inl e \<longrightarrow>
      Execute n (VariableValue var ds) c ctx = Throw e (c, ctx)) \<and>
   (Fields (instances ctx a) d = None \<longrightarrow>
      follow_dotted_ids ctx (d # ds) (InstanceRef a) = Inl out_of_range) \<and>
   (Fields (instances ctx a) d = Some w \<longrightarrow>
      follow_dotted_ids ctx (d # ds) (InstanceRef a) = follow_dotted_ids ctx ds w) \<and>
   (TryAs_ClassInstance h = None \<longrightarrow>
      follow_dotted_ids ctx (d # ds) h = follow_dotted_ids ctx ds h) \<and>
   (c var = Some h \<longrightarrow> TryAs_ClassInstance h = None \<longrightarrow>
      Execute n (VariableValue var ds) c ctx = Normal h (c, ctx))"
  by (simp add: VariableValue_Execute_def follow_dotted_ids_non_instance)

theorem C5_witness:
  "Execute 0 (VariableValue ''q'' [''f'']) [''o'' \<mapsto> InstanceRef 0, ''x'' \<mapsto> Number 5]
     field_context =
     Throw (runtime_error (''Variable '' @ [double_quote_char] @ ''q'' @ [double_quote_char]
              @ '' is not found''))
       ([''o'' \<mapsto> InstanceRef 0, ''x'' \<mapsto> Number 5], field_context) \<and>
   Execute 0 (VariableValue ''o'' [''f'']) [''o'' \<mapsto> InstanceRef 0, ''x'' \<mapsto> Number 5]
     field_context =
     Normal (Number 7) ([''o'' \<mapsto> InstanceRef 0, ''x'' \<mapsto> Number 5], field_context) \<and>
   Execute 0 (VariableValue ''o'' [''g'']) [''o'' \<mapsto> InstanceRef 0, ''x'' \<mapsto> Number 5]
     field_context =
     Throw out_of_range ([''o'' \<mapsto> InstanceRef 0, ''x'' \<mapsto> Number 5], field_context) \<and>
   Execute 0 (VariableValue ''o'' [''f'', ''g'']) [''o'' \<mapsto> InstanceRef 0, ''x'' \<mapsto> Number 5]
     field_context =
     Normal (Number 7) ([''o'' \<mapsto> InstanceRef 0, ''x'' \<mapsto> Number 5], field_context) \<and>
   Execute 0 (VariableValue ''x'' [''a'', ''b'']) [''o'' \<mapsto> InstanceRef 0, ''x'' \<mapsto> Number 5]
     field_context =
     Normal (Number 5) ([''o'' \<mapsto> InstanceRef 0, ''x'' \<mapsto> Number 5], field_context)"
proof -
  let ?c = "[''o'' \<mapsto> InstanceRef 0, ''x'' \<mapsto> Number 5]"
  note th = C5_VariableValue_failures [where n = 0 and c = ?c and ctx = field_context and a = 0]
  have q: "?c ''q'' = None" and o: "?c ''o'' = Some (InstanceRef 0)"
    and x: "?c ''x'' = Some (Number 5)"
    by simp_all
  have f: "Fields (instances field_context 0) ''f'' = Some (Number 7)"
    and g: "Fields (instances field_context 0) ''g'' = None"
    by (simp_all add: field_context_def)
  have n7: "TryAs_ClassInstance (Number 7) = None" and n5: "TryAs_ClassInstance (Number 5) = None"
    by simp_all
  \<comment> \<open>The head name is absent.\<close>
  from th [where var = "''q''" and ds = "[''f'']"] q
  have a1: "Execute 0 (VariableValue ''q'' [''f'']) ?c field_context =
     Throw (runtime_error (''Variable '' @ [double_quote_char] @ ''q'' @ [double_quote_char]
              @ '' is not found'')) (?c, field_context)"
    by blast
  \<comment> \<open>The field exists.\<close>
  from th [where d = "''f''" and ds = "[]" and w = "Number 7"] f
  have "follow_dotted_ids field_context [''f''] (InstanceRef 0) =
        follow_dotted_ids field_context [] (Number 7)"
    by blast
  then have w2: "follow_dotted_ids field_context [''f''] (InstanceRef 0) = Inr (Number 7)"
    by simp
  from th [where var = "''o''" and h = "InstanceRef 0" and ds = "[''f'']" and v = "Number 7"] o w2
  have a2: "Execute 0 (VariableValue ''o'' [''f'']) ?c field_context =
     Normal (Number 7) (?c, field_context)"
    by blast
  \<comment> \<open>The field does not exist.\<close>
  from th [where d = "''g''" and ds = "[]"] g
  have w3: "follow_dotted_ids field_context [''g''] (InstanceRef 0) = Inl out_of_range"
    by blast
  from th [where var = "''o''" and h = "InstanceRef 0" and ds = "[''g'']" and e = out_of_range]
    o w3
  have a3: "Execute 0 (VariableValue ''o'' [''g'']) ?c field_context =
     Throw out_of_range (?c, field_context)"
    by blast
  \<comment> \<open>The second segment meets a number and is skipped.\<close>
  from th [where h = "Number 7" and d = "''g''" and ds = "[]"] n7
  have "follow_dotted_ids field_context [''g''] (Number 7) =
        follow_dotted_ids field_context [] (Number 7)"
    by blast
  then have w4a: "follow_dotted_ids field_context [''g''] (Number 7) = Inr (Number 7)"
    by simp
  from th [where d = "''f''" and ds = "[''g'']" and w = "Number 7"] f
  have "follow_dotted_ids field_context [''f'', ''g''] (InstanceRef 0) =
        follow_dotted_ids field_context [''g''] (Number 7)"
    by blast
  with w4a have w4: "follow_dotted_ids field_context [''f'', ''g''] (InstanceRef 0) =
        Inr (Number 7)"
    by simp
  from th [where var = "''o''" and h = "InstanceRef 0" and ds = "[''f'', ''g'']"
      and v = "Number 7"] o w4
  have a4: "Execute 0 (VariableValue ''o'' [''f'', ''g'']) ?c field_context =
     Normal (Number 7) (?c, field_context)"
    by blast
  \<comment> \<open>The head is a number: every segment is skipped.\<close>
  from th [where var = "''x''" and h = "Number 5" and ds = "[''a'', ''b'']"] x n5
  have a5: "Execute 0 (VariableValue ''x'' [''a'', ''b'']) ?c field_context =
     Normal (Number 5) (?c, field_context)"
    by blast
  from a1 a2 a3 a4 a5 show ?thesis by blast
qed

text \<open>
  Claim C6: a \<^verbatim>\<open>Return\<close> throws the value of its expression; a \<^verbatim>\<open>MethodBody\<close> whose body
  ends by that throw yields exactly the thrown value, one whose body completes yields
  None, and one whose body fails with an error fails with the same error, so that no
  \<^verbatim>\<open>MethodBody\<close> ends by the throw of a holder. The throw
  passes the statements between the \<^verbatim>\<open>Return\<close> and the \<^verbatim>\<open>MethodBody\<close>: a compound statement
  ends with the throw of one of its statements, after the statements before it, and an if
  statement ends with the throw of its condition or of the branch it takes.
\<close>

theorem C6_return_transfer:
  "(Execute n e c ctx = Normal v s \<longrightarrow>
      Execute n (Return e) c ctx = Throw (thrown_holder v) s) \<and>
   (Execute n b c ctx = Throw (thrown_holder v) s \<longrightarrow>
      Execute n (MethodBody b) c ctx = Normal v s) \<and>
   (Execute n b c ctx = Normal x s \<longrightarrow>
      Execute n (MethodBody b) c ctx = Normal Empty s) \<and>
   (Execute n b c ctx = Throw err s \<longrightarrow> is_error err \<longrightarrow>
      Execute n (MethodBody b) c ctx = Throw err s) \<and>
   Execute n (MethodBody b) c ctx \<noteq> Throw (thrown_holder v) s \<and>
   (Execute n st c ctx = Throw err s \<longrightarrow>
      Execute n (Compound (st # rest)) c ctx = Throw err s) \<and>
   (Execute n st c ctx = Normal x (c', ctx') \<longrightarrow>
      Execute n (Compound (st # rest)) c ctx = Execute n (Compound rest) c' ctx') \<and>
   (Execute n cond c ctx = Throw err s \<longrightarrow>
      Execute n (IfElse cond t el) c ctx = Throw err s) \<and>
   (Execute n cond c ctx = Normal x (c', ctx') \<longrightarrow> IsTrue x \<longrightarrow>
      Execute n (IfElse cond t el) c ctx = Execute n t c' ctx') \<and>
   (Execute n cond c ctx = Normal x (c', ctx') \<longrightarrow> \<not> IsTrue x \<longrightarrow>
      Execute n (IfElse cond t (Some f)) c ctx = Execute n f c' ctx')"
  by (auto simp: is_error_def split: Exception.splits Outcome.splits)

theorem C6_witness:
  "Execute 0 (MethodBody (Compound
       [IfElse (VariableValue ''x'' []) (Return (VariableValue ''y'' [])) None,
        Assignment ''x'' (VariableValue ''z'' [])])) frame empty_context =
     Normal (String ''r'') (frame, empty_context) \<and>
   Execute 0 (MethodBody (Compound
       [VariableValue ''x'' [],
        IfElse (VariableValue ''z'' []) (VariableValue ''x'' []) (Some (Return (VariableValue ''y'' [])))]))
     frame empty_context = Normal (String ''r'') (frame, empty_context) \<and>
   Execute 0 (MethodBody (VariableValue ''x'' [])) frame empty_context =
     Normal Empty (frame, empty_context) \<and>
   Execute 0 (MethodBody (IfElse (VariableValue ''q'' []) (VariableValue ''x'' []) None))
     frame empty_context =
     Throw (runtime_error (''Variable '' @ [double_quote_char] @ ''q'' @ [double_quote_char]
                 @ '' is not found'')) (frame, empty_context)"
proof -
  let ?ret = "Return (VariableValue ''y'' [])"
  let ?s = "(frame, empty_context)"
  note th = C6_return_transfer [where n = 0 and c = frame and ctx = empty_context
      and c' = frame and ctx' = empty_context and s = ?s]
  have x: "Execute 0 (VariableValue ''x'' []) frame empty_context = Normal (Number 1) ?s"
    by (simp add: VariableValue_Execute_def frame_def)
  have y: "Execute 0 (VariableValue ''y'' []) frame empty_context = Normal (String ''r'') ?s"
    by (simp add: VariableValue_Execute_def frame_def)
  have z: "Execute 0 (VariableValue ''z'' []) frame empty_context = Normal (Number 0) ?s"
    by (simp add: VariableValue_Execute_def frame_def)
  have q: "Execute 0 (VariableValue ''q'' []) frame empty_context =
     Throw (runtime_error (''Variable '' @ [double_quote_char] @ ''q'' @ [double_quote_char]
                 @ '' is not found'')) ?s"
    by (simp add: VariableValue_Execute_def frame_def)
  have err: "is_error (runtime_error (''Variable '' @ [double_quote_char] @ ''q''
                 @ [double_quote_char] @ '' is not found''))"
    by (simp add: is_error_def)
  have t: "IsTrue (Number 1)" and f: "\<not> IsTrue (Number 0)" by simp_all
  \<comment> \<open>The return statement transfers the value of its expression.\<close>
  from th [where e = "VariableValue ''y'' []" and v = "String ''r''"] y
  have r: "Execute 0 ?ret frame empty_context = Throw (thrown_holder (String ''r'')) ?s"
    by blast
  \<comment> \<open>First body: the transfer passes the if statement and the compound statement.\<close>
  from th [where cond = "VariableValue ''x'' []" and x = "Number 1" and t = ?ret and el = None] x t r
  have i1: "Execute 0 (IfElse (VariableValue ''x'' []) ?ret None) frame empty_context =
            Throw (thrown_holder (String ''r'')) ?s"
    by simp
  from th [where st = "IfElse (VariableValue ''x'' []) ?ret None"
      and err = "thrown_holder (String ''r'')" and rest = "[Assignment ''x'' (VariableValue ''z'' [])]"] i1
  have c1: "Execute 0 (Compound [IfElse (VariableValue ''x'' []) ?ret None,
              Assignment ''x'' (VariableValue ''z'' [])]) frame empty_context =
            Throw (thrown_holder (String ''r'')) ?s"
    by blast
  from th [where b = "Compound [IfElse (VariableValue ''x'' []) ?ret None,
              Assignment ''x'' (VariableValue ''z'' [])]" and v = "String ''r''"] c1
  have m1: "Execute 0 (MethodBody (Compound [IfElse (VariableValue ''x'' []) ?ret None,
              Assignment ''x'' (VariableValue ''z'' [])])) frame empty_context =
            Normal (String ''r'') ?s"
    by blast
  \<comment> \<open>Second body: the else branch returns, after a statement that completes.\<close>
  from th [where cond = "VariableValue ''z'' []" and x = "Number 0" and f = ?ret
      and t = "VariableValue ''x'' []"] z f r
  have i2: "Execute 0 (IfElse (VariableValue ''z'' []) (VariableValue ''x'' []) (Some ?ret))
              frame empty_context = Throw (thrown_holder (String ''r'')) ?s"
    by simp
  from th [where st = "IfElse (VariableValue ''z'' []) (VariableValue ''x'' []) (Some ?ret)"
      and err = "thrown_holder (String ''r'')" and rest = "[]"] i2
  have c2a: "Execute 0 (Compound [IfElse (VariableValue ''z'' []) (VariableValue ''x'' [])
              (Some ?ret)]) frame empty_context = Throw (thrown_holder (String ''r'')) ?s"
    by blast
  from th [where st = "VariableValue ''x'' []" and x = "Number 1"
      and rest = "[IfElse (VariableValue ''z'' []) (VariableValue ''x'' []) (Some ?ret)]"] x c2a
  have c2: "Execute 0 (Compound [VariableValue ''x'' [],
              IfElse (VariableValue ''z'' []) (VariableValue ''x'' []) (Some ?ret)])
              frame empty_context = Throw (thrown_holder (String ''r'')) ?s"
    by simp
  from th [where b = "Compound [VariableValue ''x'' [],
              IfElse (VariableValue ''z'' []) (VariableValue ''x'' []) (Some ?ret)]"
      and v = "String ''r''"] c2
  have m2: "Execute 0 (MethodBody (Compound [VariableValue ''x'' [],
              IfElse (VariableValue ''z'' []) (VariableValue ''x'' []) (Some ?ret)]))
              frame empty_context = Normal (String ''r'') ?s"
    by blast
  \<comment> \<open>A body that completes, and a body that fails.\<close>
  from th [where b = "VariableValue ''x'' []" and x = "Number 1"] x
  have m3: "Execute 0 (MethodBody (VariableValue ''x'' [])) frame empty_context = Normal Empty ?s"
    by blast
  from th [where cond = "VariableValue ''q'' []" and t = "VariableValue ''x'' []" and el = None
      and err = "runtime_error (''Variable '' @ [double_quote_char] @ ''q''
                 @ [double_quote_char] @ '' is not found'')"] q
  have i4: "Execute 0 (IfElse (VariableValue ''q'' []) (VariableValue ''x'' []) None)
              frame empty_context =
            Throw (runtime_error (''Variable '' @ [double_quote_char] @ ''q''
                 @ [double_quote_char] @ '' is not found'')) ?s"
    by blast
  from th [where b = "IfElse (VariableValue ''q'' []) (VariableValue ''x'' []) None"
      and err = "runtime_error (''Variable '' @ [double_quote_char] @ ''q''
                 @ [double_quote_char] @ '' is not found'')"] i4 err
  have m4: "Execute 0 (MethodBody (IfElse (VariableValue ''q'' []) (VariableValue ''x'' []) None))
              frame empty_context =
            Throw (runtime_error (''Variable '' @ [double_quote_char] @ ''q''
                 @ [double_quote_char] @ '' is not found'')) ?s"
    by blast
  from m1 m2 m3 m4 show ?thesis by blast
qed

text \<open>The comparisons of two values of one primitive type.\<close>

lemma Equal_primitives:
  "Equal exec (Number i) (Number j) ctx = Normal (i = j) ctx"
  "Equal exec (String s) (String t) ctx = Normal (s = t) ctx"
  "Equal exec (Bool b) (Bool d) ctx = Normal (b = d) ctx"
  by (simp_all add: Equal_def)

lemma Less_primitives:
  "Less exec (Number i) (Number j) ctx = Normal (i < j) ctx"
  "Less exec (String s) (String t) ctx = Normal (s < t) ctx"
  "Less exec (Bool b) (Bool d) ctx = Normal (b < d) ctx"
  by (simp_all add: Less_def)


text \<open>
  Claim C7: \<^verbatim>\<open>NotEqual\<close> is the negation of \<^verbatim>\<open>Equal\<close>; \<^verbatim>\<open>Greater\<close> is \<^verbatim>\<open>!Less && !Equal\<close> (when
  \<^verbatim>\<open>Less\<close> holds, \<^verbatim>\<open>Equal\<close> is not called); \<^verbatim>\<open>LessOrEqual\<close> is the negation of \<^verbatim>\<open>Greater\<close> and
  \<^verbatim>\<open>GreaterOrEqual\<close> that of \<^verbatim>\<open>Less\<close>, whatever the operands, the outcome of a failing
  comparison included. On two numbers, two strings or two booleans \<open>x\<close> is equal to \<open>x\<close>
  and not less than \<open>x\<close>, and the four derived comparisons are the orders of the values.
\<close>

theorem C7_derived_comparators:
  "NotEqual exec l r ctx = map_value Not (Equal exec l r ctx) \<and>
   Greater exec l r ctx =
     andThen (Less exec l r ctx) (\<lambda>lt ctx1.
       if lt then Normal False ctx1 else map_value Not (Equal exec l r ctx1)) \<and>
   LessOrEqual exec l r ctx = map_value Not (Greater exec l r ctx) \<and>
   GreaterOrEqual exec l r ctx = map_value Not (Less exec l r ctx) \<and>
   Equal exec (Number i) (Number i) ctx = Normal True ctx \<and>
   Equal exec (String s) (String s) ctx = Normal True ctx \<and>
   Equal exec (Bool b) (Bool b) ctx = Normal True ctx \<and>
   Less exec (Number i) (Number i) ctx = Normal False ctx \<and>
   Less exec (String s) (String s) ctx = Normal False ctx \<and>
   Less exec (Bool b) (Bool b) ctx = Normal False ctx \<and>
   Greater exec (Number i) (Number j) ctx = Normal (j < i) ctx \<and>
   Greater exec (String s) (String t) ctx = Normal (t < s) ctx \<and>
   Greater exec (Bool b) (Bool d) ctx = Normal (d < b) ctx \<and>
   LessOrEqual exec (Number i) (Number j) ctx = Normal (i \<le> j) ctx \<and>
   LessOrEqual exec (String s) (String t) ctx = Normal (s \<le> t) ctx \<and>
   LessOrEqual exec (Bool b) (Bool d) ctx = Normal (b \<le> d) ctx \<and>
   GreaterOrEqual exec (Number i) (Number j) ctx = Normal (j \<le> i) ctx \<and>
   GreaterOrEqual exec (String s) (String t) ctx = Normal (t \<le> s) ctx \<and>
   GreaterOrEqual exec (Bool b) (Bool d) ctx = Normal (d \<le> b) ctx \<and>
   NotEqual exec (Number i) (Number j) ctx = Normal (i \<noteq> j) ctx \<and>
   NotEqual exec (String s) (String t) ctx = Normal (s \<noteq> t) ctx \<and>
   NotEqual exec (Bool b) (Bool d) ctx = Normal (b \<noteq> d) ctx"
proof -
  have g: "Greater exec l r ctx =
     andThen (Less exec l r ctx) (\<lambda>lt ctx1.
       if lt then Normal False ctx1 else map_value Not (Equal exec l r ctx1))"
    unfolding Greater_def
    by (rule arg_cong [where f = "andThen (Less exec l r ctx)"]) (intro ext, simp)
  have gn: "Greater exec (Number i) (Number j) ctx = Normal (j < i) ctx"
    by (auto simp: Greater_def Less_primitives Equal_primitives)
  have gs: "Greater exec (String s) (String t) ctx = Normal (t < s) ctx"
    by (auto simp: Greater_def Less_primitives Equal_primitives)
  have gb: "Greater exec (Bool b) (Bool d) ctx = Normal (d < b) ctx"
    by (auto simp: Greater_def Less_primitives Equal_primitives)
  have len: "LessOrEqual exec (Number i) (Number j) ctx = Normal (i \<le> j) ctx"
    by (simp add: LessOrEqual_def gn not_less)
  have les: "LessOrEqual exec (String s) (String t) ctx = Normal (s \<le> t) ctx"
    by (simp add: LessOrEqual_def gs not_less)
  have leb: "LessOrEqual exec (Bool b) (Bool d) ctx = Normal (b \<le> d) ctx"
    by (auto simp: LessOrEqual_def gb)
  have gen: "GreaterOrEqual exec (Number i) (Number j) ctx = Normal (j \<le> i) ctx"
    by (simp add: GreaterOrEqual_def Less_primitives not_less)
  have ges: "GreaterOrEqual exec (String s) (String t) ctx = Normal (t \<le> s) ctx"
    by (simp add: GreaterOrEqual_def Less_primitives not_less)
  have geb: "GreaterOrEqual exec (Bool b) (Bool d) ctx = Normal (d \<le> b) ctx"
    by (auto simp: GreaterOrEqual_def Less_primitives)
  have ne: "NotEqual exec l r ctx = map_value Not (Equal exec l r ctx)"
    by (simp add: NotEqual_def)
  have le: "LessOrEqual exec l r ctx = map_value Not (Greater exec l r ctx)"
    by (simp add: LessOrEqual_def)
  have ge: "GreaterOrEqual exec l r ctx = map_value Not (Less exec l r ctx)"
    by (simp add: GreaterOrEqual_def)
  have en: "Equal exec (Number i) (Number i) ctx = Normal True ctx"
    and es: "Equal exec (String s) (String s) ctx = Normal True ctx"
    and eb: "Equal exec (Bool b) (Bool b) ctx = Normal True ctx"
    by (simp_all add: Equal_primitives)
  have ln: "Less exec (Number i) (Number i) ctx = Normal False ctx"
    and ls: "Less exec (String s) (String s) ctx = Normal False ctx"
    and lb: "Less exec (Bool b) (Bool b) ctx = Normal False ctx"
    by (simp_all add: Less_primitives)
  have nen: "NotEqual exec (Number i) (Number j) ctx = Normal (i \<noteq> j) ctx"
    and nes: "NotEqual exec (String s) (String t) ctx = Normal (s \<noteq> t) ctx"
    and neb: "NotEqual exec (Bool b) (Bool d) ctx = Normal (b \<noteq> d) ctx"
    by (simp_all add: NotEqual_def Equal_primitives)
  show ?thesis
    by (intro conjI ne g le ge en es eb ln ls lb gn gs gb len les leb gen ges geb nen nes neb)
qed

text \<open>A method that \<^verbatim>\<open>GetMethod\<close> finds is a method of the class or of an ancestor.\<close>

lemma GetMethod_SomeD:
  "GetMethod c n = Some m \<Longrightarrow> \<exists>cl \<in> set (class_chain c). methods_map (methods cl) n = Some m"
proof (induction c n rule: GetMethod.induct)
  case (1 nm ms par n)
  show ?case
  proof (cases "methods_map ms n")
    case (Some m')
    with 1(2) have "m' = m" by simp
    with Some show ?thesis by simp
  next
    case None
    show ?thesis
    proof (cases par)
      case N: None
      with None 1(2) show ?thesis by simp
    next
      case (Some p)
      with None 1(2) have "GetMethod p n = Some m" by simp
      from 1(1)[OF None Some this] Some show ?thesis by auto
    qed
  qed
qed

lemma HasMethod_has_method_of_arity:
  "HasMethod inst method k \<Longrightarrow> has_method_of_arity (cls inst) method k"
proof -
  assume h: "HasMethod inst method k"
  then obtain m where g: "GetMethod (cls inst) method = Some m"
    and k: "length (formal_params m) = k"
    by (auto simp: HasMethod_def split: option.splits)
  from GetMethod_SomeD [OF g] obtain cl where "cl \<in> set (class_chain (cls inst))"
    and "methods_map (methods cl) method = Some m"
    by blast
  with k show ?thesis
    unfolding has_method_of_arity_def by (intro bexI [of _ cl]) simp_all
qed

text \<open>
  Claim C8: when the class of the instance of a \<^verbatim>\<open>NewInstance\<close> node has, directly or
  through its parent chain, no \<^verbatim>\<open>__init__\<close> method with as many parameters as the node has
  arguments, executing the node raises no error, evaluates no argument (the closure and
  the context are as before, whatever the arguments are) and yields the holder that
  shares the instance of the node.
\<close>

theorem C8_NewInstance_without_init:
  assumes "\<not> has_method_of_arity (cls (instances ctx a)) ''__init__'' (length args)"
  shows "Execute n (NewInstance a args) c ctx = Normal (InstanceRef a) (c, ctx)"
  using assms HasMethod_has_method_of_arity [of "instances ctx a" "''__init__''" "length args"]
  by auto


theorem C8_witness:
  "\<not> has_method_of_arity (cls (instances empty_context 0)) ''__init__''
        (length [Assignment ''y'' (VariableValue ''x'' [])]) \<and>
   Execute 0 (NewInstance 0 [Assignment ''y'' (VariableValue ''x'' [])]) [''x'' \<mapsto> Number 1]
     empty_context = Normal (InstanceRef 0) ([''x'' \<mapsto> Number 1], empty_context)"
proof -
  have h: "\<not> has_method_of_arity (cls (instances empty_context 0)) ''__init__''
        (length [Assignment ''y'' (VariableValue ''x'' [])])"
    by (simp add: has_method_of_arity_def empty_context_def no_instances_def methods_map_def)
  show ?thesis using h C8_NewInstance_without_init [OF h] by simp
qed

text \<open>\<^verbatim>\<open>VariableValue::Execute\<close> changes neither the closure nor the context.\<close>

lemma VariableValue_Execute_state:
  "VariableValue_Execute var ds c ctx = Normal v s \<Longrightarrow> s = (c, ctx)"
  by (auto simp: VariableValue_Execute_def split: option.splits sum.splits)

text \<open>
  Claim C9: when the target of a \<^verbatim>\<open>FieldAssignment\<close> evaluates to a value that is not a
  class instance, the execution yields None and the right-hand side is not evaluated:
  the closure and the context, with the fields of every instance, are as before,
  whatever the right-hand side is.
\<close>

theorem C9_FieldAssignment_non_instance:
  assumes "Execute n (VariableValue var ds) c ctx = Normal v s"
    and "TryAs_ClassInstance v = None"
  shows "Execute n (FieldAssignment var ds field_name rv) c ctx = Normal Empty (c, ctx)"
proof -
  from assms(1) have e: "VariableValue_Execute var ds c ctx = Normal v s" by simp
  from VariableValue_Execute_state [OF e] have "s = (c, ctx)" .
  with e assms(2) show ?thesis by simp
qed


theorem C9_witness:
  "Execute 0 (VariableValue ''x'' []) [''x'' \<mapsto> Number 1] empty_context =
     Normal (Number 1) ([''x'' \<mapsto> Number 1], empty_context) \<and>
   TryAs_ClassInstance (Number 1) = None \<and>
   Execute 0 (FieldAssignment ''x'' [] ''f'' (Assignment ''y'' (VariableValue ''x'' [])))
     [''x'' \<mapsto> Number 1] empty_context = Normal Empty ([''x'' \<mapsto> Number 1], empty_context)"
proof -
  have h1: "Execute 0 (VariableValue ''x'' []) [''x'' \<mapsto> Number 1] empty_context =
     Normal (Number 1) ([''x'' \<mapsto> Number 1], empty_context)"
    by (simp add: VariableValue_Execute_def)
  have h2: "TryAs_ClassInstance (Number 1) = None" by simp
  show ?thesis using h1 h2 C9_FieldAssignment_non_instance [OF h1 h2] by simp
qed

end
